theory Spec2Isabelle
  imports Complex_Main
begin

section \<open>Reactive browser adapters: the model\<close>

text \<open>
  Each composable of the library is a small state machine: a handful of reactive cells,
  written by setup code and by event listeners.  A composable is modelled as a record of
  its cells, its setup function as the initial state, and each listener as a function
  from state to state.  What the platform reports at the time of an event (the readings
  of \<^verbatim>\<open>navigator\<close>, of \<^verbatim>\<open>document\<close>, of the clock, the outcome of an asynchronous
  call) is an argument of the event; what the composable asks of the platform (a method
  call, a timeout) is recorded in the state.  A listener registered with
  \<^verbatim>\<open>useEventListener\<close> runs once for each event of its kind on its target, and is not
  registered where the source skips the registration.
\<close>

subsection \<open>useNetwork\<close>

datatype NetworkType =
  Bluetooth | Cellular | Ethernet | NoNetwork | Wifi | Wimax | OtherNetwork | UnknownNetwork

datatype NetworkEffectiveType = Slow2g | Net2g | Net3g | Net4g

text \<open>
  The readings of the \<^verbatim>\<open>navigator.connection\<close> object.  A browser may leave any of
  them out (\<open>None\<close>).
\<close>

record connection_info =
  conn_downlink :: "real option"
  conn_downlinkMax :: "real option"
  conn_effectiveType :: "NetworkEffectiveType option"
  conn_rtt :: "real option"
  conn_saveData :: "bool option"
  conn_type :: "NetworkType option"

text \<open>
  \<^verbatim>\<open>navigator\<close>: its \<^verbatim>\<open>onLine\<close> flag and its \<^verbatim>\<open>connection\<close> property, which is
  \<open>None\<close> when the key is not in the object, \<open>Some None\<close> when the key is there with
  a null or undefined value, and \<open>Some (Some c)\<close> for a connection object.
\<close>

record navigator_info =
  nav_onLine :: bool
  nav_connection :: "connection_info option option"

text \<open>
  \<^verbatim>\<open>options.window\<close>: \<open>None\<close> when there is no window (server side), \<open>Some None\<close>
  for a window with no navigator.
\<close>

type_synonym window_info = "navigator_info option option"

record network_state =
  net_window :: bool
  net_navigator :: bool
  net_connection :: bool
  net_isSupported :: bool
  net_isOnline :: bool
  net_saveData :: "bool option"
  net_offlineAt :: "int option"
  net_onlineAt :: "int option"
  net_downlink :: "real option"
  net_downlinkMax :: "real option"
  net_rtt :: "real option"
  net_effectiveType :: "NetworkEffectiveType option"
  net_type :: "NetworkType option"

text \<open>\<^verbatim>\<open>window?.navigator\<close>\<close>

definition navigator_of :: "window_info \<Rightarrow> navigator_info option" where
  "navigator_of w = (case w of None \<Rightarrow> None | Some n \<Rightarrow> n)"

text \<open>
  Modelled from the spec: \<^verbatim>\<open>useSupported\<close> is not among the sources.  The spec has
  a capability flag be the boolean that tells whether the platform exposes the API, so the
  flag is the truth value of what the callback returns, here of
  \<^verbatim>\<open>navigator && 'connection' in navigator\<close>.
\<close>

definition network_supported :: "navigator_info option \<Rightarrow> bool" where
  "network_supported n = (case n of None \<Rightarrow> False | Some nav \<Rightarrow> nav_connection nav \<noteq> None)"

text \<open>
  \<^verbatim>\<open>const connection = isSupported.value && navigator.connection\<close>: the object the
  listener is attached to and the updates read, when it is truthy.
\<close>

definition connection_of :: "navigator_info option \<Rightarrow> connection_info option" where
  "connection_of n =
     (if network_supported n
      then (case n of None \<Rightarrow> None
            | Some nav \<Rightarrow> (case nav_connection nav of None \<Rightarrow> None | Some c \<Rightarrow> c))
      else None)"

text \<open>
  \<^verbatim>\<open>updateNetworkInformation\<close>, run with the platform's readings at that moment:
  \<open>online\<close> is \<^verbatim>\<open>navigator.onLine\<close>, \<open>now\<close> is \<^verbatim>\<open>Date.now()\<close>, \<open>c\<close> the fields
  of the connection object.
\<close>

definition updateNetworkInformation ::
  "bool \<Rightarrow> int \<Rightarrow> connection_info \<Rightarrow> network_state \<Rightarrow> network_state" where
  "updateNetworkInformation online now c s =
     (if net_navigator s then
        (let s1 = s\<lparr>net_isOnline := online,
                     net_offlineAt := (if online then None else Some now),
                     net_onlineAt := (if online then Some now else None)\<rparr>
         in if net_connection s1 then
              s1\<lparr>net_downlink := conn_downlink c,
                  net_downlinkMax := conn_downlinkMax c,
                  net_effectiveType := conn_effectiveType c,
                  net_rtt := conn_rtt c,
                  net_saveData := conn_saveData c,
                  net_type := conn_type c\<rparr>
            else s1)
      else s)"

text \<open>The cells as \<^verbatim>\<open>useNetwork\<close> creates them, before the first update.\<close>

definition network_cells :: "window_info \<Rightarrow> network_state" where
  "network_cells w =
     \<lparr>net_window = (w \<noteq> None),
      net_navigator = (navigator_of w \<noteq> None),
      net_connection = (connection_of (navigator_of w) \<noteq> None),
      net_isSupported = network_supported (navigator_of w),
      net_isOnline = True,
      net_saveData = Some False,
      net_offlineAt = None,
      net_onlineAt = None,
      net_downlink = None,
      net_downlinkMax = None,
      net_rtt = None,
      net_effectiveType = None,
      net_type = Some UnknownNetwork\<rparr>"

definition no_connection_info :: connection_info where
  "no_connection_info =
     \<lparr>conn_downlink = None, conn_downlinkMax = None, conn_effectiveType = None,
      conn_rtt = None, conn_saveData = None, conn_type = None\<rparr>"

text \<open>
  \<^verbatim>\<open>useNetwork\<close>: the cells, then one call of \<^verbatim>\<open>updateNetworkInformation\<close> at time
  \<open>now\<close>.
\<close>

definition useNetwork :: "window_info \<Rightarrow> int \<Rightarrow> network_state" where
  "useNetwork w now =
     (case navigator_of w of
        None \<Rightarrow> network_cells w
      | Some nav \<Rightarrow>
          updateNetworkInformation (nav_onLine nav) now
            (case connection_of (Some nav) of None \<Rightarrow> no_connection_info | Some c \<Rightarrow> c)
            (network_cells w))"

text \<open>
  The events of the platform: \<^verbatim>\<open>offline\<close> and \<^verbatim>\<open>online\<close> on the window (with the
  clock), and \<^verbatim>\<open>change\<close> on the connection object (with \<^verbatim>\<open>navigator.onLine\<close>, the
  clock and the connection's fields at that moment).  A listener runs only where
  \<^verbatim>\<open>useNetwork\<close> registered it: the window's when there is a window, the connection's
  when \<^verbatim>\<open>connection\<close> is truthy.
\<close>

datatype network_event =
  OfflineEvent int
| OnlineEvent int
| ConnectionChange bool int connection_info

fun network_step :: "network_state \<Rightarrow> network_event \<Rightarrow> network_state" where
  "network_step s (OfflineEvent now) =
     (if net_window s then s\<lparr>net_isOnline := False, net_offlineAt := Some now\<rparr> else s)"
| "network_step s (OnlineEvent now) =
     (if net_window s then s\<lparr>net_isOnline := True, net_onlineAt := Some now\<rparr> else s)"
| "network_step s (ConnectionChange online now c) =
     (if net_connection s then updateNetworkInformation online now c s else s)"

definition network_run :: "network_state \<Rightarrow> network_event list \<Rightarrow> network_state" where
  "network_run s es = foldl network_step s es"

text \<open>The quality cells as \<^verbatim>\<open>useNetwork\<close> initialises them.\<close>

definition quality_initial :: "network_state \<Rightarrow> bool" where
  "quality_initial s \<longleftrightarrow>
     net_downlink s = None \<and> net_downlinkMax s = None \<and> net_effectiveType s = None \<and>
     net_rtt s = None \<and> net_saveData s = Some False \<and> net_type s = Some UnknownNetwork"

subsection \<open>JavaScript values\<close>

text \<open>
  A string-valued cell or argument that may also be \<^verbatim>\<open>undefined\<close> or \<^verbatim>\<open>null\<close>.
  The string is the list of its characters, of type \<open>'a\<close>: bytes where the text is only
  passed on, UTF-16 code units where the code looks into it.
\<close>

datatype 'a jsstring = Undefined | Null | Str "'a list"

text \<open>Truthiness: only a non-empty string is truthy.\<close>

fun truthy :: "'a jsstring \<Rightarrow> bool" where
  "truthy (Str s) = (s \<noteq> [])"
| "truthy Undefined = False"
| "truthy Null = False"

text \<open>\<^verbatim>\<open>v == null\<close>\<close>

fun nullish :: "'a jsstring \<Rightarrow> bool" where
  "nullish (Str s) = False"
| "nullish Undefined = True"
| "nullish Null = True"

text \<open>\<^verbatim>\<open>a || b\<close>\<close>

definition js_or :: "'a jsstring \<Rightarrow> 'a jsstring \<Rightarrow> 'a jsstring" where
  "js_or a b = (if truthy a then a else b)"

text \<open>How the promise of an asynchronous call settles.\<close>

datatype promise_outcome = Resolved | Rejected

subsection \<open>useClipboard\<close>

datatype PermissionState = Granted | Denied | Prompt

text \<open>
  The options after destructuring.  \<open>opt_navigator\<close> is \<open>None\<close> when there is no
  navigator and \<open>Some b\<close> for a navigator, \<open>b\<close> telling whether the key
  \<^verbatim>\<open>clipboard\<close> is in it.
\<close>

record clipboard_options =
  opt_navigator :: "bool option"
  opt_copiedDuring :: nat
  opt_legacy :: bool

text \<open>
  What \<^verbatim>\<open>copy\<close> asks of the platform: the Clipboard API's write, and the DOM
  operations of the legacy copy.
\<close>

datatype clipboard_effect =
  WriteText string
| CreateTextarea
| SetTextareaValue string
| SetStyle string string
| SetAttribute string string
| AppendToBody
| SelectTextarea
| ExecCommand string
| RemoveTextarea

text \<open>
  The cells \<open>text\<close> and \<open>copied\<close>, the pending reset timer (the time it is due at),
  the clock in milliseconds, and the platform operations issued so far.
\<close>

record clipboard_state =
  clip_text :: string
  clip_copied :: bool
  clip_timer :: "nat option"
  clip_now :: nat
  clip_effects :: "clipboard_effect list"

text \<open>
  \<^verbatim>\<open>useSupported(() => (navigator && 'clipboard' in navigator))\<close>, the flag being the
  truth value of what the callback returns.
\<close>

definition isClipboardApiSupported :: "clipboard_options \<Rightarrow> bool" where
  "isClipboardApiSupported opts = (opt_navigator opts = Some True)"

text \<open>\<^verbatim>\<open>computed(() => isClipboardApiSupported.value || legacy)\<close>\<close>

definition clipboard_isSupported :: "clipboard_options \<Rightarrow> bool" where
  "clipboard_isSupported opts = (isClipboardApiSupported opts \<or> opt_legacy opts)"

text \<open>\<^verbatim>\<open>status === 'granted' || status === 'prompt'\<close>\<close>

definition isAllowed :: "PermissionState option \<Rightarrow> bool" where
  "isAllowed status = (status = Some Granted \<or> status = Some Prompt)"

text \<open>
  \<^verbatim>\<open>legacyCopy\<close>: the operations it asks of the global \<^verbatim>\<open>document\<close> and of the
  text field, in order, when none of them throws.
\<close>

definition legacyCopy :: "string \<Rightarrow> clipboard_effect list" where
  "legacyCopy v =
     [CreateTextarea, SetTextareaValue v, SetStyle ''position'' ''absolute'',
      SetStyle ''opacity'' ''0'', SetAttribute ''readonly'' [], AppendToBody,
      SelectTextarea, ExecCommand ''copy'', RemoveTextarea]"

text \<open>
  Modelled from the spec: \<^verbatim>\<open>useTimeoutFn\<close> of \<^verbatim>\<open>@vueuse/shared\<close> is not among the
  sources.  The spec has the timers single-shot and explicitly cancelled and replaced on
  re-trigger, and each new copy restart the timer: \<^verbatim>\<open>start\<close> drops a pending timeout
  and schedules the callback \<^verbatim>\<open>copied.value = false\<close> after the interval.  With
  \<^verbatim>\<open>immediate: false\<close> nothing is scheduled at setup.
\<close>

definition timeout_start :: "nat \<Rightarrow> clipboard_state \<Rightarrow> clipboard_state" where
  "timeout_start interval s = s\<lparr>clip_timer := Some (clip_now s + interval)\<rparr>"

text \<open>
  The event loop runs for \<open>dt\<close> milliseconds with no call of \<^verbatim>\<open>copy\<close>: a pending
  timeout that is due by then fires once.
\<close>

definition clipboard_advance :: "nat \<Rightarrow> clipboard_state \<Rightarrow> clipboard_state" where
  "clipboard_advance dt s =
     (case clip_timer s of
        None \<Rightarrow> s\<lparr>clip_now := clip_now s + dt\<rparr>
      | Some due \<Rightarrow>
          if due \<le> clip_now s + dt
          then s\<lparr>clip_now := clip_now s + dt, clip_timer := None, clip_copied := False\<rparr>
          else s\<lparr>clip_now := clip_now s + dt\<rparr>)"

text \<open>
  One call of \<^verbatim>\<open>copy\<close>: the argument (\<open>Undefined\<close> when left out), the value of
  \<^verbatim>\<open>toValue(source)\<close> at the call, the state of the \<^verbatim>\<open>clipboard-write\<close> permission
  (the cell \<^verbatim>\<open>usePermission\<close> returns, \<open>None\<close> for undefined), how
  \<^verbatim>\<open>navigator.clipboard.writeText\<close> settles if it is called, and how \<^verbatim>\<open>legacyCopy\<close>
  goes if it is run: \<open>None\<close> when every operation succeeds, \<open>Some k\<close> when the
  operation at position \<open>k\<close> (from 0) throws, as \<^verbatim>\<open>document.createElement\<close> does with
  no document, \<^verbatim>\<open>appendChild\<close> with no body and \<^verbatim>\<open>execCommand\<close> where the platform
  has none.
\<close>

record copy_call =
  call_value :: "char jsstring"
  call_source :: "char jsstring"
  call_permissionWrite :: "PermissionState option"
  call_writeText :: promise_outcome
  call_legacyCopy :: "nat option"

text \<open>The default parameter \<^verbatim>\<open>value = toValue(source)\<close> applies to \<^verbatim>\<open>undefined\<close> only.\<close>

definition copy_value :: "copy_call \<Rightarrow> char jsstring" where
  "copy_value c = (if call_value c = Undefined then call_source c else call_value c)"

text \<open>
  Whether the run of \<^verbatim>\<open>legacyCopy\<close> throws (a position past its last operation is no
  throw), and the operations it asks for: all of them, or those up to the one that
  throws.
\<close>

definition legacy_throws :: "copy_call \<Rightarrow> bool" where
  "legacy_throws c =
     (case call_legacyCopy c of None \<Rightarrow> False | Some k \<Rightarrow> k < length (legacyCopy []))"

definition legacy_attempt :: "copy_call \<Rightarrow> string \<Rightarrow> clipboard_effect list" where
  "legacy_attempt c v =
     (case call_legacyCopy c of None \<Rightarrow> legacyCopy v | Some k \<Rightarrow> take (Suc k) (legacyCopy v))"

text \<open>
  \<^verbatim>\<open>copy\<close>, returning how its promise settles and the new state.  The call is taken as
  one step: no timer fires between the write and the update of the cells.  \<open>useLegacy\<close>
  is the variable before the \<^verbatim>\<open>try\<close>, \<open>useLegacy'\<close> after it.  The call of
  \<^verbatim>\<open>legacyCopy\<close> is in no \<^verbatim>\<open>try\<close>: when it throws, the promise of \<^verbatim>\<open>copy\<close>
  rejects and the assignments after the call are not reached.
\<close>

definition copy ::
  "clipboard_options \<Rightarrow> copy_call \<Rightarrow> clipboard_state \<Rightarrow> promise_outcome \<times> clipboard_state" where
  "copy opts c s =
     (case copy_value c of
        Str v \<Rightarrow>
          if clipboard_isSupported opts then
            (let useLegacy = \<not> (isClipboardApiSupported opts \<and> isAllowed (call_permissionWrite c));
                 s1 = (if useLegacy then s else s\<lparr>clip_effects := clip_effects s @ [WriteText v]\<rparr>);
                 useLegacy' = (if useLegacy then True else call_writeText c = Rejected);
                 s2 = (if useLegacy'
                       then s1\<lparr>clip_effects := clip_effects s1 @ legacy_attempt c v\<rparr> else s1)
             in if useLegacy' \<and> legacy_throws c then (Rejected, s2)
                else (Resolved,
                      timeout_start (opt_copiedDuring opts)
                        (s2\<lparr>clip_text := v, clip_copied := True\<rparr>)))
          else (Resolved, s)
      | Undefined \<Rightarrow> (Resolved, s)
      | Null \<Rightarrow> (Resolved, s))"

text \<open>The state \<^verbatim>\<open>useClipboard\<close> returns at time \<open>now\<close>.\<close>

definition useClipboard :: "nat \<Rightarrow> clipboard_state" where
  "useClipboard now =
     \<lparr>clip_text = [], clip_copied = False, clip_timer = None, clip_now = now,
      clip_effects = []\<rparr>"

text \<open>
  How often the platform's copy command was invoked: each run of \<^verbatim>\<open>legacyCopy\<close> that
  gets that far invokes it once, and nothing else does.  And how often \<^verbatim>\<open>legacyCopy\<close>
  was run: each run begins by asking the document for the text field, and nothing else
  does.
\<close>

definition legacy_copies :: "clipboard_state \<Rightarrow> nat" where
  "legacy_copies s = count_list (clip_effects s) (ExecCommand ''copy'')"

definition legacy_runs :: "clipboard_state \<Rightarrow> nat" where
  "legacy_runs s = count_list (clip_effects s) CreateTextarea"

subsection \<open>useFullscreen\<close>

text \<open>
  The values the fullscreen properties of \<^verbatim>\<open>document\<close> and of the target element hold.
  An object is the map from its keys to their values: \<open>None\<close> for a key that is not in
  the object.
\<close>

datatype jsvalue = JUndefined | JNull | JBoolean bool | JElement nat | JFunction

type_synonym jsobject = "string \<Rightarrow> jsvalue option"

fun js_truthy :: "jsvalue \<Rightarrow> bool" where
  "js_truthy JUndefined = False"
| "js_truthy JNull = False"
| "js_truthy (JBoolean b) = b"
| "js_truthy (JElement i) = True"
| "js_truthy JFunction = True"

text \<open>\<^verbatim>\<open>m in obj\<close>\<close>

definition has_key :: "jsobject \<Rightarrow> string \<Rightarrow> bool" where
  "has_key obj m = (obj m \<noteq> None)"

text \<open>\<^verbatim>\<open>obj[m]\<close>\<close>

definition get_prop :: "jsobject \<Rightarrow> string \<Rightarrow> jsvalue" where
  "get_prop obj m = (case obj m of None \<Rightarrow> JUndefined | Some v \<Rightarrow> v)"

text \<open>\<^verbatim>\<open>obj[m] != null\<close>\<close>

definition not_null :: "jsobject \<Rightarrow> string \<Rightarrow> bool" where
  "not_null obj m = (get_prop obj m \<noteq> JUndefined \<and> get_prop obj m \<noteq> JNull)"

text \<open>
  The platform as the controller sees it: \<^verbatim>\<open>document\<close> (\<open>None\<close> when there is none)
  and the value of \<^verbatim>\<open>targetRef\<close>, that is
  \<^verbatim>\<open>unrefElement(target) ?? document?.documentElement\<close>: an element's identity and its
  properties, or \<open>None\<close> when there is neither a target nor a document element.  The
  value is then \<^verbatim>\<open>null\<close>, the \<^verbatim>\<open>documentElement\<close> of a document that has none, and
  \<^verbatim>\<open>undefined\<close> when there is no document either.
\<close>

record fullscreen_env =
  env_document :: "jsobject option"
  env_target :: "(nat \<times> jsobject) option"

text \<open>\<^verbatim>\<open>document && m in document\<close>\<close>

definition in_document :: "fullscreen_env \<Rightarrow> string \<Rightarrow> bool" where
  "in_document e m = (case env_document e of None \<Rightarrow> False | Some d \<Rightarrow> has_key d m)"

text \<open>\<^verbatim>\<open>targetRef.value && m in targetRef.value\<close>\<close>

definition in_target :: "fullscreen_env \<Rightarrow> string \<Rightarrow> bool" where
  "in_target e m = (case env_target e of None \<Rightarrow> False | Some (i, t) \<Rightarrow> has_key t m)"

text \<open>\<^verbatim>\<open>document?.[m] != null\<close>\<close>

definition document_not_null :: "fullscreen_env \<Rightarrow> string \<Rightarrow> bool" where
  "document_not_null e m = (case env_document e of None \<Rightarrow> False | Some d \<Rightarrow> not_null d m)"

text \<open>\<^verbatim>\<open>target?.[m] != null\<close>\<close>

definition target_not_null :: "fullscreen_env \<Rightarrow> string \<Rightarrow> bool" where
  "target_not_null e m = (case env_target e of None \<Rightarrow> False | Some (i, t) \<Rightarrow> not_null t m)"

text \<open>
  The method tables: of the candidate names in their order, the first that is a key of
  the document or of the target (\<^verbatim>\<open>Array.prototype.find\<close>), \<open>None\<close> for undefined.
\<close>

definition requestMethod :: "fullscreen_env \<Rightarrow> string option" where
  "requestMethod e =
     List.find (\<lambda>m. in_document e m \<or> in_target e m)
       [''requestFullscreen'', ''webkitRequestFullscreen'', ''webkitEnterFullscreen'',
        ''webkitEnterFullScreen'', ''webkitRequestFullScreen'', ''mozRequestFullScreen'',
        ''msRequestFullscreen'']"

definition exitMethod :: "fullscreen_env \<Rightarrow> string option" where
  "exitMethod e =
     List.find (\<lambda>m. in_document e m \<or> in_target e m)
       [''exitFullscreen'', ''webkitExitFullscreen'', ''webkitExitFullScreen'',
        ''webkitCancelFullScreen'', ''mozCancelFullScreen'', ''msExitFullscreen'']"

definition fullscreenEnabled :: "fullscreen_env \<Rightarrow> string option" where
  "fullscreenEnabled e =
     List.find (\<lambda>m. in_document e m \<or> in_target e m)
       [''fullScreen'', ''webkitIsFullScreen'', ''webkitDisplayingFullscreen'',
        ''mozFullScreen'', ''msFullscreenElement'']"

definition fullscreenElementMethod :: "fullscreen_env \<Rightarrow> string option" where
  "fullscreenElementMethod e =
     List.find (\<lambda>m. in_document e m)
       [''fullscreenElement'', ''webkitFullscreenElement'', ''mozFullScreenElement'',
        ''msFullscreenElement'']"

text \<open>
  \<^verbatim>\<open>isSupported\<close>, the truth value of what the callback of \<^verbatim>\<open>useSupported\<close>
  returns.  The method tables are computed values; they are read here from the platform
  as it stands at the call.
\<close>

definition fullscreen_isSupported :: "fullscreen_env \<Rightarrow> bool" where
  "fullscreen_isSupported e =
     (env_target e \<noteq> None \<and> env_document e \<noteq> None \<and> requestMethod e \<noteq> None \<and>
      exitMethod e \<noteq> None \<and> fullscreenEnabled e \<noteq> None)"

text \<open>
  \<^verbatim>\<open>document?.[fullscreenElementMethod] === targetRef.value\<close>.  The method is only
  found in an existing document, so a \<^verbatim>\<open>targetRef\<close> with no element is \<^verbatim>\<open>null\<close>
  here.
\<close>

definition isCurrentElementFullScreen :: "fullscreen_env \<Rightarrow> bool" where
  "isCurrentElementFullScreen e =
     (case fullscreenElementMethod e of
        None \<Rightarrow> False
      | Some m \<Rightarrow>
          (case env_document e of
             None \<Rightarrow> False
           | Some d \<Rightarrow>
               (case env_target e of
                  None \<Rightarrow> get_prop d m = JNull
                | Some (i, t) \<Rightarrow> get_prop d m = JElement i)))"

text \<open>
  \<^verbatim>\<open>isElementFullScreen\<close> returns the document's property as it is, or the target's
  as a boolean.
\<close>

definition isElementFullScreen :: "fullscreen_env \<Rightarrow> jsvalue" where
  "isElementFullScreen e =
     (case fullscreenEnabled e of
        None \<Rightarrow> JBoolean False
      | Some m \<Rightarrow>
          if document_not_null e m
          then (case env_document e of None \<Rightarrow> JUndefined | Some d \<Rightarrow> get_prop d m)
          else if target_not_null e m
          then (case env_target e of
                  None \<Rightarrow> JBoolean False
                | Some (i, t) \<Rightarrow> JBoolean (js_truthy (get_prop t m)))
          else JBoolean False)"

text \<open>
  A call of a platform method, on \<^verbatim>\<open>document\<close> or on the target, by the method's name.
  The platform decides how the call's promise settles and what \<^verbatim>\<open>document\<close> and the
  target look like afterwards.
\<close>

datatype fullscreen_call = DocumentCall string | TargetCall string

type_synonym platform = "fullscreen_env \<Rightarrow> fullscreen_call \<Rightarrow> promise_outcome \<times> fullscreen_env"

text \<open>
  The controller: the cell \<open>isFullscreen\<close> (its truthiness), the platform as it stands,
  and the platform methods called so far, in order.
\<close>

record fullscreen_state =
  fs_isFullscreen :: bool
  fs_env :: fullscreen_env
  fs_calls :: "fullscreen_call list"

definition invoke ::
  "platform \<Rightarrow> fullscreen_call \<Rightarrow> fullscreen_state \<Rightarrow> promise_outcome \<times> fullscreen_state" where
  "invoke P c s =
     (case P (fs_env s) c of
        (r, e) \<Rightarrow> (r, s\<lparr>fs_env := e, fs_calls := fs_calls s @ [c]\<rparr>))"

text \<open>
  \<^verbatim>\<open>exit\<close>.  An awaited call that rejects ends the function there: the promise of
  \<^verbatim>\<open>exit\<close> rejects and the assignment after it is not reached.
\<close>

definition exit_fullscreen ::
  "platform \<Rightarrow> fullscreen_state \<Rightarrow> promise_outcome \<times> fullscreen_state" where
  "exit_fullscreen P s =
     (if fullscreen_isSupported (fs_env s) \<and> fs_isFullscreen s then
        (case exitMethod (fs_env s) of
           None \<Rightarrow> (Resolved, s\<lparr>fs_isFullscreen := False\<rparr>)
         | Some m \<Rightarrow>
             if document_not_null (fs_env s) m then
               (case invoke P (DocumentCall m) s of
                  (Rejected, s1) \<Rightarrow> (Rejected, s1)
                | (Resolved, s1) \<Rightarrow> (Resolved, s1\<lparr>fs_isFullscreen := False\<rparr>))
             else if target_not_null (fs_env s) m then
               (case invoke P (TargetCall m) s of
                  (Rejected, s1) \<Rightarrow> (Rejected, s1)
                | (Resolved, s1) \<Rightarrow> (Resolved, s1\<lparr>fs_isFullscreen := False\<rparr>))
             else (Resolved, s\<lparr>fs_isFullscreen := False\<rparr>))
      else (Resolved, s))"

text \<open>\<^verbatim>\<open>enter\<close>\<close>

definition enter ::
  "platform \<Rightarrow> fullscreen_state \<Rightarrow> promise_outcome \<times> fullscreen_state" where
  "enter P s =
     (if fullscreen_isSupported (fs_env s) \<and> \<not> fs_isFullscreen s then
        (case (if js_truthy (isElementFullScreen (fs_env s))
               then exit_fullscreen P s else (Resolved, s)) of
           (Rejected, s1) \<Rightarrow> (Rejected, s1)
         | (Resolved, s1) \<Rightarrow>
             (case requestMethod (fs_env s1) of
                None \<Rightarrow> (Resolved, s1)
              | Some m \<Rightarrow>
                  if target_not_null (fs_env s1) m then
                    (case invoke P (TargetCall m) s1 of
                       (Rejected, s2) \<Rightarrow> (Rejected, s2)
                     | (Resolved, s2) \<Rightarrow> (Resolved, s2\<lparr>fs_isFullscreen := True\<rparr>))
                  else (Resolved, s1)))
      else (Resolved, s))"

text \<open>\<^verbatim>\<open>toggle\<close>\<close>

definition toggle_fullscreen ::
  "platform \<Rightarrow> fullscreen_state \<Rightarrow> promise_outcome \<times> fullscreen_state" where
  "toggle_fullscreen P s = (if fs_isFullscreen s then exit_fullscreen P s else enter P s)"

text \<open>
  \<^verbatim>\<open>handlerCallback\<close>, the listener of the fullscreen change events, run after the
  platform changed to \<open>e\<close>.
\<close>

definition handlerCallback :: "fullscreen_env \<Rightarrow> fullscreen_state \<Rightarrow> fullscreen_state" where
  "handlerCallback e s =
     (let isElementFullScreenValue = js_truthy (isElementFullScreen e)
      in if \<not> isElementFullScreenValue \<or>
            (isElementFullScreenValue \<and> isCurrentElementFullScreen e)
         then s\<lparr>fs_env := e, fs_isFullscreen := isElementFullScreenValue\<rparr>
         else s\<lparr>fs_env := e\<rparr>)"

text \<open>
  The controller \<^verbatim>\<open>useFullscreen\<close> returns on platform \<open>e\<close>, once mounted (the mount
  hook runs \<^verbatim>\<open>handlerCallback\<close>).
\<close>

definition useFullscreen :: "fullscreen_env \<Rightarrow> fullscreen_state" where
  "useFullscreen e =
     handlerCallback e \<lparr>fs_isFullscreen = False, fs_env = e, fs_calls = []\<rparr>"

text \<open>
  A page in fullscreen for element 2, with the standard exit method and WebKit's flag on
  the document, and element 1, which has the standard request method, as the target.
\<close>

definition other_element_fullscreen :: fullscreen_env where
  "other_element_fullscreen =
     \<lparr>env_document = Some (map_of
        [(''exitFullscreen'', JFunction),
         (''webkitIsFullScreen'', JBoolean True),
         (''fullscreenElement'', JElement 2)]),
      env_target = Some (1, map_of [(''requestFullscreen'', JFunction)])\<rparr>"

text \<open>The same page with nothing in fullscreen.\<close>

definition nothing_fullscreen :: fullscreen_env where
  "nothing_fullscreen =
     \<lparr>env_document = Some (map_of
        [(''exitFullscreen'', JFunction),
         (''webkitIsFullScreen'', JBoolean False),
         (''fullscreenElement'', JNull)]),
      env_target = Some (1, map_of [(''requestFullscreen'', JFunction)])\<rparr>"

text \<open>A platform on which every call resolves, and one on which every call rejects.\<close>

definition resolving_platform :: platform where
  "resolving_platform e c = (Resolved, e)"

definition rejecting_platform :: platform where
  "rejecting_platform e c = (Rejected, e)"

subsection \<open>useElementHover\<close>

text \<open>
  A JavaScript number: not a number, an infinity, or a finite number.
\<close>

datatype jsnumber = NaN | PosInfinity | NegInfinity | Num real

text \<open>Truthiness of a number: every number but 0 and NaN.\<close>

fun number_truthy :: "jsnumber \<Rightarrow> bool" where
  "number_truthy (Num r) = (r \<noteq> 0)"
| "number_truthy NaN = False"
| "number_truthy PosInfinity = True"
| "number_truthy NegInfinity = True"

text \<open>
  What the platform's \<^verbatim>\<open>setTimeout\<close> makes of its delay.  The argument is converted
  to a 32-bit signed integer as a Web IDL \<^verbatim>\<open>long\<close> is: a number that is not finite
  gives 0, a finite one is truncated toward zero and reduced modulo \<open>2^32\<close> into the
  range from \<open>-2^31\<close> to \<open>2^31 - 1\<close>.  A negative result counts as 0.
\<close>

definition to_int32 :: "jsnumber \<Rightarrow> int" where
  "to_int32 x =
     (case x of
        Num r \<Rightarrow>
          (let n = (if 0 \<le> r then \<lfloor>r\<rfloor> else \<lceil>r\<rceil>) mod 2 ^ 32
           in if 2 ^ 31 \<le> n then n - 2 ^ 32 else n)
      | NaN \<Rightarrow> 0
      | PosInfinity \<Rightarrow> 0
      | NegInfinity \<Rightarrow> 0)"

definition timeout_delay :: "jsnumber \<Rightarrow> nat" where
  "timeout_delay x = nat (to_int32 x)"

text \<open>
  The options after destructuring: the two delays in milliseconds, and whether there is
  a window.  The listener for the removal of the target (\<^verbatim>\<open>onElementRemoval\<close>, not among
  the sources) is left out: the events are pointer enter and pointer leave.
\<close>

record hover_options =
  hov_delayEnter :: jsnumber
  hov_delayLeave :: jsnumber
  hov_window :: bool

text \<open>
  The cell \<open>isHovered\<close>, the variable \<^verbatim>\<open>timer\<close> (\<open>None\<close> for undefined, else the
  handle \<^verbatim>\<open>setTimeout\<close> returned), and the platform's side: the timeouts that are
  scheduled and have neither fired nor been cleared, each with its handle, the time it is
  due at and the value its callback assigns to \<open>isHovered\<close>; the next handle the
  platform hands out; the clock in milliseconds.
\<close>

record hover_state =
  hov_isHovered :: bool
  hov_timer :: "nat option"
  hov_pending :: "(nat \<times> nat \<times> bool) list"
  hov_next :: nat
  hov_now :: nat

text \<open>\<^verbatim>\<open>const delay = entering ? delayEnter : delayLeave\<close>\<close>

definition delay_of :: "hover_options \<Rightarrow> bool \<Rightarrow> jsnumber" where
  "delay_of opts entering = (if entering then hov_delayEnter opts else hov_delayLeave opts)"

text \<open>\<^verbatim>\<open>clearTimeout(h)\<close>: the platform drops the timeout with that handle, if any.\<close>

definition clearTimeout :: "nat \<Rightarrow> hover_state \<Rightarrow> hover_state" where
  "clearTimeout h s = s\<lparr>hov_pending := filter (\<lambda>t. fst t \<noteq> h) (hov_pending s)\<rparr>"

text \<open>
  \<^verbatim>\<open>timer = setTimeout(() => isHovered.value = entering, delay)\<close>: the platform
  schedules the callback for the time now plus what it makes of the delay, and returns a
  fresh handle.
\<close>

definition setTimeout :: "bool \<Rightarrow> jsnumber \<Rightarrow> hover_state \<Rightarrow> hover_state" where
  "setTimeout entering delay s =
     s\<lparr>hov_pending :=
         hov_pending s @ [(hov_next s, hov_now s + timeout_delay delay, entering)],
       hov_timer := Some (hov_next s),
       hov_next := Suc (hov_next s)\<rparr>"

text \<open>
  \<^verbatim>\<open>toggle\<close>.  The test \<^verbatim>\<open>if (timer)\<close> holds for a handle other than 0; the test
  \<^verbatim>\<open>if (delay)\<close> for a delay that is truthy.
\<close>

definition toggle :: "hover_options \<Rightarrow> bool \<Rightarrow> hover_state \<Rightarrow> hover_state" where
  "toggle opts entering s =
     (let delay = delay_of opts entering;
          s1 = (case hov_timer s of
                  None \<Rightarrow> s
                | Some h \<Rightarrow> if h \<noteq> 0 then (clearTimeout h s)\<lparr>hov_timer := None\<rparr> else s)
      in if number_truthy delay then setTimeout entering delay s1
         else s1\<lparr>hov_isHovered := entering\<rparr>)"

text \<open>
  The event loop runs for \<open>dt\<close> milliseconds with no pointer event: the timeouts due by
  then fire in the order of their due times and leave the platform's list.
\<close>

definition hover_elapse :: "nat \<Rightarrow> hover_state \<Rightarrow> hover_state" where
  "hover_elapse dt s =
     foldl (\<lambda>s' t. s'\<lparr>hov_isHovered := snd (snd t)\<rparr>)
       (s\<lparr>hov_pending := filter (\<lambda>t. hov_now s + dt < fst (snd t)) (hov_pending s),
          hov_now := hov_now s + dt\<rparr>)
       (sort_key (\<lambda>t. fst (snd t))
          (filter (\<lambda>t. fst (snd t) \<le> hov_now s + dt) (hov_pending s)))"

datatype hover_event = MouseEnter | MouseLeave | Elapse nat

text \<open>The listeners are registered only when there is a window.\<close>

fun hover_step :: "hover_options \<Rightarrow> hover_state \<Rightarrow> hover_event \<Rightarrow> hover_state" where
  "hover_step opts s MouseEnter = (if hov_window opts then toggle opts True s else s)"
| "hover_step opts s MouseLeave = (if hov_window opts then toggle opts False s else s)"
| "hover_step opts s (Elapse dt) = hover_elapse dt s"

definition hover_run :: "hover_options \<Rightarrow> hover_state \<Rightarrow> hover_event list \<Rightarrow> hover_state" where
  "hover_run opts s es = foldl (hover_step opts) s es"

text \<open>
  The state \<^verbatim>\<open>useElementHover\<close> returns at time \<open>now\<close>.  The platform's handles are
  greater than zero.
\<close>

definition useElementHover :: "nat \<Rightarrow> hover_state" where
  "useElementHover now =
     \<lparr>hov_isHovered = False, hov_timer = None, hov_pending = [], hov_next = 1,
      hov_now = now\<rparr>"

text \<open>
  Read off a history of events that starts at time \<open>t0\<close>: the time now, and the last
  pointer event that reached \<^verbatim>\<open>toggle\<close> with the time it arrived at (\<open>True\<close> for an
  enter, \<open>False\<close> for a leave).
\<close>

fun hover_history ::
  "hover_options \<Rightarrow> nat \<times> (bool \<times> nat) option \<Rightarrow> hover_event \<Rightarrow> nat \<times> (bool \<times> nat) option" where
  "hover_history opts (t, l) MouseEnter = (t, if hov_window opts then Some (True, t) else l)"
| "hover_history opts (t, l) MouseLeave = (t, if hov_window opts then Some (False, t) else l)"
| "hover_history opts (t, l) (Elapse dt) = (t + dt, l)"

definition last_pointer_event ::
  "hover_options \<Rightarrow> nat \<Rightarrow> hover_event list \<Rightarrow> (bool \<times> nat) option" where
  "last_pointer_event opts t0 es = snd (foldl (hover_history opts) (t0, None) es)"

text \<open>
  What holds of every state the events lead to, next to its history \<open>(t, l)\<close>: at most
  one timeout is pending; it is the one whose handle the variable \<^verbatim>\<open>timer\<close> holds, it
  was scheduled by the last pointer event, and it is due the delay after that event.
\<close>

definition hover_inv :: "hover_options \<Rightarrow> hover_state \<Rightarrow> nat \<times> (bool \<times> nat) option \<Rightarrow> bool" where
  "hover_inv opts s g \<longleftrightarrow>
     hov_now s = fst g \<and> hov_next s \<noteq> 0 \<and> hov_timer s \<noteq> Some 0 \<and>
     (hov_pending s = [] \<or>
      (\<exists>h e t1. hov_pending s = [(h, t1 + timeout_delay (delay_of opts e), e)] \<and>
         hov_timer s = Some h \<and> snd g = Some (e, t1) \<and> number_truthy (delay_of opts e)))"

text \<open>
  A delay of 100 milliseconds for an enter, and none for a leave.
\<close>

definition short_delay :: hover_options where
  "short_delay = \<lparr>hov_delayEnter = Num 100, hov_delayLeave = Num 0, hov_window = True\<rparr>"

text \<open>
  A delay of \<open>2^31\<close> milliseconds for an enter, and none for a leave.
\<close>

definition long_delay :: hover_options where
  "long_delay =
     \<lparr>hov_delayEnter = Num 2147483648, hov_delayLeave = Num 0, hov_window = True\<rparr>"

subsection \<open>useActiveElement\<close>

text \<open>
  An element, with its identity and its \<^verbatim>\<open>shadowRoot\<close> (\<open>None\<close> when it hosts none,
  or none that is open); a shadow root, with its \<^verbatim>\<open>activeElement\<close> (\<open>None\<close> for
  null); \<^verbatim>\<open>document\<close>, with its \<^verbatim>\<open>activeElement\<close>.  The elements are the tree of
  focus scopes as the platform reports it at one moment.
\<close>

datatype element = Element nat "shadow_root option"
  and shadow_root = ShadowRoot "element option"

datatype document = Document "element option"

text \<open>A reference that may be \<^verbatim>\<open>undefined\<close> or \<^verbatim>\<open>null\<close>.\<close>

datatype jsref = RefUndefined | RefNull | Ref element

text \<open>
  The options: whether there is a window, and \<open>deep\<close>.  The document
  (\<^verbatim>\<open>options.document ?? window?.document\<close>) comes with each event, as it is then.
\<close>

record active_options =
  act_window :: bool
  act_deep :: bool

text \<open>
  The loop \<^verbatim>\<open>while (element?.shadowRoot) element = element?.shadowRoot?.activeElement\<close>,
  started at an element.
\<close>

fun descend :: "element \<Rightarrow> jsref" where
  "descend (Element i None) = Ref (Element i None)"
| "descend (Element i (Some (ShadowRoot None))) = RefNull"
| "descend (Element i (Some (ShadowRoot (Some e)))) = descend e"

text \<open>\<^verbatim>\<open>getDeepActiveElement\<close>\<close>

definition getDeepActiveElement :: "active_options \<Rightarrow> document option \<Rightarrow> jsref" where
  "getDeepActiveElement opts doc =
     (case doc of
        None \<Rightarrow> RefUndefined
      | Some (Document None) \<Rightarrow> RefNull
      | Some (Document (Some e)) \<Rightarrow> if act_deep opts then descend e else Ref e)"

text \<open>
  The events on the window, each with the document as it is when the listener runs: blur
  with its \<^verbatim>\<open>relatedTarget\<close>, and focus.
\<close>

datatype focus_event = Blur jsref "document option" | Focus "document option"

text \<open>
  The listeners, on the cell \<open>activeElement\<close>.  They are registered only when there is a
  window.
\<close>

fun active_step :: "active_options \<Rightarrow> jsref \<Rightarrow> focus_event \<Rightarrow> jsref" where
  "active_step opts tracked (Blur relatedTarget doc) =
     (if act_window opts
      then (if relatedTarget \<noteq> RefNull then tracked else getDeepActiveElement opts doc)
      else tracked)"
| "active_step opts tracked (Focus doc) =
     (if act_window opts then getDeepActiveElement opts doc else tracked)"

definition active_run :: "active_options \<Rightarrow> jsref \<Rightarrow> focus_event list \<Rightarrow> jsref" where
  "active_run opts tracked es = foldl (active_step opts) tracked es"

text \<open>\<^verbatim>\<open>useActiveElement\<close>: the cell after the call of \<^verbatim>\<open>trigger\<close> at setup.\<close>

definition useActiveElement :: "active_options \<Rightarrow> document option \<Rightarrow> jsref" where
  "useActiveElement opts doc = getDeepActiveElement opts doc"

text \<open>
  The document as of the last event of a history that is a focus or a blur with a null
  \<^verbatim>\<open>relatedTarget\<close>; the document at setup when there is no such event.
\<close>

fun last_report :: "document option \<Rightarrow> focus_event \<Rightarrow> document option" where
  "last_report d (Blur relatedTarget doc) = (if relatedTarget \<noteq> RefNull then d else doc)"
| "last_report d (Focus doc) = doc"

text \<open>Whether a reference is to an element that hosts a shadow root.\<close>

fun hosts_shadow :: "jsref \<Rightarrow> bool" where
  "hosts_shadow (Ref (Element i (Some r))) = True"
| "hosts_shadow (Ref (Element i None)) = False"
| "hosts_shadow RefNull = False"
| "hosts_shadow RefUndefined = False"

text \<open>
  The elements the descent from an element passes: the element, the active element of
  its shadow root, and so on.
\<close>

fun shadow_path :: "element \<Rightarrow> element list" where
  "shadow_path (Element i None) = [Element i None]"
| "shadow_path (Element i (Some (ShadowRoot None))) = [Element i (Some (ShadowRoot None))]"
| "shadow_path (Element i (Some (ShadowRoot (Some e)))) =
     Element i (Some (ShadowRoot (Some e))) # shadow_path e"

text \<open>
  Element 1 hosts a shadow root whose active element, element 2, hosts a shadow root
  whose active element is element 3.
\<close>

definition nested_focus :: element where
  "nested_focus =
     Element 1 (Some (ShadowRoot (Some (Element 2 (Some (ShadowRoot (Some (Element 3 None))))))))"

subsection \<open>useCssVar\<close>

text \<open>
  The strings of this binding (property names, values, computed styles) are lists of
  UTF-16 code units, since \<^verbatim>\<open>trim\<close> looks at them; \<open>units\<close> gives the code units
  of a text of ASCII.
\<close>

type_synonym code_unit = nat

definition units :: "string \<Rightarrow> code_unit list" where
  "units s = map of_char s"

text \<open>
  The target element (the value of \<^verbatim>\<open>elRef\<close>): its identity, and whether it has a
  \<^verbatim>\<open>style\<close> object.
\<close>

record css_element =
  el_id :: nat
  el_style :: bool

text \<open>
  The binding: whether there is a window, \<open>initialValue\<close> (a string or undefined), the
  target element (\<open>None\<close> when there is neither a target nor a document element) and
  the property name \<^verbatim>\<open>toValue(prop)\<close>.  Target and name are taken as fixed over the life
  of the binding.
\<close>

record cssvar_options =
  css_window :: bool
  css_initialValue :: "code_unit jsstring"
  css_el :: "css_element option"
  css_prop :: "code_unit jsstring"

text \<open>The calls on the \<^verbatim>\<open>style\<close> object of an element, by the element's identity.\<close>

datatype style_call =
  RemoveProperty nat "code_unit list"
| SetProperty nat "code_unit list" "code_unit list"

text \<open>The cell \<open>variable\<close>, and the style calls issued so far.\<close>

record cssvar_state =
  css_variable :: "code_unit jsstring"
  css_calls :: "style_call list"

text \<open>
  The code units \<^verbatim>\<open>String.prototype.trim\<close> strips: the white space of ECMAScript
  (tab U+0009, vertical tab U+000B, form feed U+000C, the byte order mark U+FEFF, and the
  space separators of Unicode: U+0020, U+00A0, U+1680, U+2000 to U+200A, U+202F, U+205F
  and U+3000) and its line terminators (U+000A, U+000D, U+2028 and U+2029).
\<close>

definition is_space :: "code_unit \<Rightarrow> bool" where
  "is_space u =
     (u \<in> {0x0009, 0x000B, 0x000C, 0xFEFF, 0x0020, 0x00A0, 0x1680, 0x202F, 0x205F, 0x3000,
            0x000A, 0x000D, 0x2028, 0x2029}
      \<or> (0x2000 \<le> u \<and> u \<le> 0x200A))"

definition trim :: "code_unit list \<Rightarrow> code_unit list" where
  "trim s = rev (dropWhile is_space (rev (dropWhile is_space s)))"

text \<open>
  \<^verbatim>\<open>window.getComputedStyle(el).getPropertyValue(key)?.trim()\<close>, for what
  \<^verbatim>\<open>getPropertyValue\<close> returned: a string, or nothing (\<open>None\<close>).
\<close>

definition trimmed :: "code_unit list option \<Rightarrow> code_unit jsstring" where
  "trimmed reading = (case reading of None \<Rightarrow> Undefined | Some r \<Rightarrow> Str (trim r))"

text \<open>
  The test \<^verbatim>\<open>el && window && key\<close> of \<^verbatim>\<open>updateCssVar\<close>.
\<close>

definition can_read :: "cssvar_options \<Rightarrow> bool" where
  "can_read opts = (css_el opts \<noteq> None \<and> css_window opts \<and> truthy (css_prop opts))"

text \<open>
  \<^verbatim>\<open>updateCssVar\<close>, for the computed style the platform reports at the call.
\<close>

definition updateCssVar ::
  "cssvar_options \<Rightarrow> code_unit list option \<Rightarrow> cssvar_state \<Rightarrow> cssvar_state" where
  "updateCssVar opts reading s =
     (if can_read opts
      then s\<lparr>css_variable :=
             js_or (trimmed reading) (js_or (css_variable s) (css_initialValue opts))\<rparr>
      else s)"

text \<open>
  The callback of the watcher on \<^verbatim>\<open>[variable, elRef]\<close>, which writes the cell to the
  element.
\<close>

definition write_variable :: "cssvar_options \<Rightarrow> cssvar_state \<Rightarrow> cssvar_state" where
  "write_variable opts s =
     (case css_el opts of
        None \<Rightarrow> s
      | Some el \<Rightarrow>
          (case css_prop opts of
             Str raw_prop \<Rightarrow>
               if el_style el \<and> raw_prop \<noteq> [] then
                 (case css_variable s of
                    Str val \<Rightarrow> s\<lparr>css_calls := css_calls s @ [SetProperty (el_id el) raw_prop val]\<rparr>
                  | Undefined \<Rightarrow> s\<lparr>css_calls := css_calls s @ [RemoveProperty (el_id el) raw_prop]\<rparr>
                  | Null \<Rightarrow> s\<lparr>css_calls := css_calls s @ [RemoveProperty (el_id el) raw_prop]\<rparr>)
               else s
           | Undefined \<Rightarrow> s
           | Null \<Rightarrow> s))"

text \<open>
  Modelled from the spec: the reactivity runtime is not part of the library.  The spec
  has a reactive cell be a value container whose changes dependents observe: a change of
  the cell runs the watcher's callback, and an assignment of the value the cell holds
  already is no change and runs nothing.  \<open>css_set\<close> is an assignment to the returned
  cell by the caller; \<open>css_read\<close> is a run of \<^verbatim>\<open>updateCssVar\<close> (by the mutation
  observer), whose assignment is watched like any other.
\<close>

definition css_set ::
  "cssvar_options \<Rightarrow> code_unit jsstring \<Rightarrow> cssvar_state \<Rightarrow> cssvar_state" where
  "css_set opts v s =
     (if v = css_variable s then s else write_variable opts (s\<lparr>css_variable := v\<rparr>))"

definition css_read ::
  "cssvar_options \<Rightarrow> cssvar_state \<Rightarrow> code_unit list option \<Rightarrow> cssvar_state" where
  "css_read opts s reading =
     css_set opts (css_variable (updateCssVar opts reading s)) s"

text \<open>
  \<^verbatim>\<open>useCssVar\<close>: the cell is created with \<open>initialValue\<close>; the two watchers are
  immediate, so \<^verbatim>\<open>updateCssVar\<close> runs once, for the computed style at setup, and then
  the cell is written to the element.
\<close>

definition useCssVar :: "cssvar_options \<Rightarrow> code_unit list option \<Rightarrow> cssvar_state" where
  "useCssVar opts reading =
     write_variable opts
       (updateCssVar opts reading \<lparr>css_variable = css_initialValue opts, css_calls = []\<rparr>)"

text \<open>
  The last of a list of readings that is not empty once trimmed, trimmed; \<open>None\<close> when
  all are empty.
\<close>

fun last_nonempty :: "code_unit list option list \<Rightarrow> code_unit list option" where
  "last_nonempty [] = None"
| "last_nonempty (r # rs) =
     (case last_nonempty rs of
        Some v \<Rightarrow> Some v
      | None \<Rightarrow>
          (case trimmed r of
             Str v \<Rightarrow> if v \<noteq> [] then Some v else None
           | Undefined \<Rightarrow> None
           | Null \<Rightarrow> None))"

text \<open>
  A binding of \<^verbatim>\<open>--color\<close> on the document element, with the initial value \<^verbatim>\<open>red\<close>.
\<close>

definition root_color :: cssvar_options where
  "root_color =
     \<lparr>css_window = True, css_initialValue = Str (units ''red''),
      css_el = Some \<lparr>el_id = 0, el_style = True\<rparr>, css_prop = Str (units ''--color'')\<rparr>"

text \<open>The same binding with the empty string as its initial value.\<close>

definition root_color_empty :: cssvar_options where
  "root_color_empty = root_color\<lparr>css_initialValue := Str []\<rparr>"

section \<open>Properties\<close>

subsection \<open>useNetwork\<close>

lemma unsupported_no_connection:
  "\<not> network_supported n \<Longrightarrow> connection_of n = None"
  by (simp add: connection_of_def)

lemma useNetwork_connection:
  "net_connection (useNetwork w now) = (connection_of (navigator_of w) \<noteq> None)"
  by (simp add: useNetwork_def network_cells_def updateNetworkInformation_def Let_def
      split: option.splits)

lemma useNetwork_isSupported:
  "net_isSupported (useNetwork w now) = network_supported (navigator_of w)"
  by (simp add: useNetwork_def network_cells_def updateNetworkInformation_def Let_def
      split: option.splits)

lemma useNetwork_quality_initial:
  "connection_of (navigator_of w) = None \<Longrightarrow> quality_initial (useNetwork w now)"
  by (cases "navigator_of w")
     (simp_all add: useNetwork_def network_cells_def updateNetworkInformation_def Let_def
        quality_initial_def)

lemma network_step_no_connection:
  "\<not> net_connection s \<Longrightarrow>
   \<not> net_connection (network_step s e) \<and>
   quality_initial (network_step s e) = quality_initial s"
  by (cases e) (simp_all add: quality_initial_def)

lemma network_run_no_connection:
  "\<not> net_connection s \<Longrightarrow> quality_initial s \<Longrightarrow> quality_initial (network_run s es)"
  unfolding network_run_def
proof (induction es arbitrary: s)
  case Nil
  then show ?case by simp
next
  case (Cons e es)
  from Cons.prems have "\<not> net_connection (network_step s e)"
    and "quality_initial (network_step s e)"
    using network_step_no_connection [of s e] by simp_all
  then show ?case using Cons.IH by simp
qed

text \<open>
  C1 (as amended).  On a platform without connection-quality support, \<open>downlink\<close>,
  \<open>downlinkMax\<close>, \<open>effectiveType\<close> and \<open>rtt\<close> are undefined when \<^verbatim>\<open>useNetwork\<close>
  returns and after every sequence of online, offline and connection-change events;
  \<open>saveData\<close> is \<open>false\<close> and \<open>type\<close> is \<open>'unknown'\<close> throughout, the values their
  cells are created with.
\<close>

theorem useNetwork_unsupported_quality:
  assumes "\<not> net_isSupported (useNetwork w now)"
  shows "net_downlink (network_run (useNetwork w now) es) = None
       \<and> net_downlinkMax (network_run (useNetwork w now) es) = None
       \<and> net_effectiveType (network_run (useNetwork w now) es) = None
       \<and> net_rtt (network_run (useNetwork w now) es) = None
       \<and> net_saveData (network_run (useNetwork w now) es) = Some False
       \<and> net_type (network_run (useNetwork w now) es) = Some UnknownNetwork"
proof -
  from assms have none: "connection_of (navigator_of w) = None"
    by (simp add: useNetwork_isSupported unsupported_no_connection)
  then have "\<not> net_connection (useNetwork w now)"
    by (simp add: useNetwork_connection)
  moreover from none have "quality_initial (useNetwork w now)"
    by (rule useNetwork_quality_initial)
  ultimately have "quality_initial (network_run (useNetwork w now) es)"
    by (rule network_run_no_connection)
  then show ?thesis by (simp add: quality_initial_def)
qed

theorem useNetwork_unsupported_quality_witness:
  "\<not> net_isSupported
       (useNetwork (Some (Some \<lparr>nav_onLine = True, nav_connection = None\<rparr>)) 0)
   \<and> net_downlink
       (network_run (useNetwork (Some (Some \<lparr>nav_onLine = True, nav_connection = None\<rparr>)) 0)
          [OfflineEvent 5,
           ConnectionChange True 7 (no_connection_info\<lparr>conn_downlink := Some 10\<rparr>),
           OnlineEvent 9]) = None
   \<and> net_saveData
       (network_run (useNetwork (Some (Some \<lparr>nav_onLine = True, nav_connection = None\<rparr>)) 0)
          [OfflineEvent 5,
           ConnectionChange True 7 (no_connection_info\<lparr>conn_downlink := Some 10\<rparr>),
           OnlineEvent 9]) = Some False"
proof -
  have unsupported:
    "\<not> net_isSupported
        (useNetwork (Some (Some \<lparr>nav_onLine = True, nav_connection = None\<rparr>)) 0)"
    by (simp add: useNetwork_isSupported navigator_of_def network_supported_def)
  from useNetwork_unsupported_quality [OF unsupported] unsupported
  show ?thesis by blast
qed

text \<open>
  C1 as stated fails: on a platform with a navigator and no \<^verbatim>\<open>connection\<close> key,
  \<open>saveData\<close> is \<open>false\<close> and \<open>type\<close> is \<open>'unknown'\<close> when \<^verbatim>\<open>useNetwork\<close>
  returns, not undefined.
\<close>

theorem useNetwork_unsupported_counterexample:
  "\<not> net_isSupported
       (useNetwork (Some (Some \<lparr>nav_onLine = True, nav_connection = None\<rparr>)) 0)
   \<and> net_saveData
       (useNetwork (Some (Some \<lparr>nav_onLine = True, nav_connection = None\<rparr>)) 0) \<noteq> None
   \<and> net_type
       (useNetwork (Some (Some \<lparr>nav_onLine = True, nav_connection = None\<rparr>)) 0) \<noteq> None"
  by (simp add: useNetwork_def navigator_of_def network_supported_def connection_of_def
      network_cells_def updateNetworkInformation_def Let_def)

subsection \<open>useClipboard\<close>

lemma clipboard_advance_add:
  "clipboard_advance b (clipboard_advance a s) = clipboard_advance (a + b) s"
  by (simp add: clipboard_advance_def add.assoc split: option.splits)

lemma copy_rejected_iff:
  assumes "clipboard_isSupported opts" and "copy_value c = Str v"
  shows "fst (copy opts c s) = Rejected \<longleftrightarrow>
     \<not> (isClipboardApiSupported opts \<and> isAllowed (call_permissionWrite c) \<and>
        call_writeText c = Resolved) \<and> legacy_throws c"
proof -
  have "call_writeText c = Resolved \<or> call_writeText c = Rejected"
    by (cases "call_writeText c") simp_all
  with assms show ?thesis by (auto simp: copy_def Let_def)
qed

lemma copy_rejected_frame:
  assumes "fst (copy opts c s) = Rejected"
  shows "clip_text (snd (copy opts c s)) = clip_text s"
    and "clip_copied (snd (copy opts c s)) = clip_copied s"
    and "clip_timer (snd (copy opts c s)) = clip_timer s"
    and "clip_now (snd (copy opts c s)) = clip_now s"
  using assms by (auto simp: copy_def Let_def split: jsstring.splits if_splits)

lemma copy_resolved:
  assumes "clipboard_isSupported opts" and "copy_value c = Str v"
    and "fst (copy opts c s) = Resolved"
  shows "clip_text (snd (copy opts c s)) = v"
    and "clip_copied (snd (copy opts c s))"
    and "clip_timer (snd (copy opts c s)) = Some (clip_now s + opt_copiedDuring opts)"
    and "clip_now (snd (copy opts c s)) = clip_now s"
  using assms by (auto simp: copy_def Let_def timeout_start_def split: if_splits)

lemma advance_copied:
  assumes "clip_copied s" and "clip_timer s = Some (clip_now s + interval)"
  shows "clip_copied (clipboard_advance d s) = (d < interval)"
  using assms by (auto simp: clipboard_advance_def)

text \<open>
  C10.  When the instance is unsupported, or the resolved value is null or undefined,
  \<^verbatim>\<open>copy\<close> resolves and changes nothing: not the tracked text, not the \<open>copied\<close>
  flag, not the timer, and no platform operation is issued.
\<close>

theorem copy_noop:
  assumes "\<not> clipboard_isSupported opts \<or> nullish (copy_value c)"
  shows "copy opts c s = (Resolved, s)"
  using assms by (cases "copy_value c") (auto simp: copy_def)

theorem copy_noop_witness:
  "copy \<lparr>opt_navigator = None, opt_copiedDuring = 1500, opt_legacy = False\<rparr>
        \<lparr>call_value = Str ''x'', call_source = Undefined,
         call_permissionWrite = Some Granted, call_writeText = Resolved,
         call_legacyCopy = None\<rparr>
        (useClipboard 0) = (Resolved, useClipboard 0)
   \<and> copy \<lparr>opt_navigator = Some True, opt_copiedDuring = 1500, opt_legacy = True\<rparr>
        \<lparr>call_value = Null, call_source = Str ''y'',
         call_permissionWrite = Some Granted, call_writeText = Resolved,
         call_legacyCopy = None\<rparr>
        (useClipboard 0) = (Resolved, useClipboard 0)"
proof -
  have a: "\<not> clipboard_isSupported
              \<lparr>opt_navigator = None, opt_copiedDuring = 1500, opt_legacy = False\<rparr>"
    by (simp add: clipboard_isSupported_def isClipboardApiSupported_def)
  have b: "nullish (copy_value \<lparr>call_value = Null, call_source = Str ''y'',
             call_permissionWrite = Some Granted, call_writeText = Resolved,
             call_legacyCopy = None\<rparr>)"
    by (simp add: copy_value_def)
  from a b show ?thesis by (simp add: copy_noop)
qed

lemma count_take_absent: "x \<notin> set xs \<Longrightarrow> count_list (take k xs) x = 0"
  using set_take_subset [of k xs] by (auto simp: count_list_0_iff)

lemma legacy_attempt_runs: "count_list (legacy_attempt c v) CreateTextarea = 1"
  by (cases "call_legacyCopy c")
     (simp_all add: legacy_attempt_def legacyCopy_def count_take_absent)

lemma legacy_attempt_complete: "\<not> legacy_throws c \<Longrightarrow> legacy_attempt c v = legacyCopy v"
  by (cases "call_legacyCopy c")
     (simp_all add: legacy_attempt_def legacy_throws_def legacyCopy_def)

lemma count_legacyCopy: "count_list (legacyCopy v) (ExecCommand ''copy'') = 1"
  by (simp add: legacyCopy_def)

lemma copy_legacy_runs:
  "legacy_runs (snd (copy opts c s)) = legacy_runs s +
     (if clipboard_isSupported opts \<and> \<not> nullish (copy_value c) \<and>
         \<not> (isClipboardApiSupported opts \<and> isAllowed (call_permissionWrite c) \<and>
            call_writeText c = Resolved)
      then 1 else 0)"
proof (cases "copy_value c")
  case (Str v)
  have "call_writeText c = Resolved \<or> call_writeText c = Rejected"
    by (cases "call_writeText c") simp_all
  with Str show ?thesis
    by (auto simp: copy_def legacy_runs_def Let_def timeout_start_def legacy_attempt_runs)
qed (simp_all add: copy_def)

lemma copy_legacy_count:
  assumes "\<not> legacy_throws c"
  shows "legacy_copies (snd (copy opts c s)) = legacy_copies s +
     (if clipboard_isSupported opts \<and> \<not> nullish (copy_value c) \<and>
         \<not> (isClipboardApiSupported opts \<and> isAllowed (call_permissionWrite c) \<and>
            call_writeText c = Resolved)
      then 1 else 0)"
proof (cases "copy_value c")
  case (Str v)
  have "call_writeText c = Resolved \<or> call_writeText c = Rejected"
    by (cases "call_writeText c") simp_all
  with Str assms show ?thesis
    by (auto simp: copy_def legacy_copies_def Let_def timeout_start_def count_legacyCopy
        legacy_attempt_complete)
qed (simp_all add: copy_def)

text \<open>
  C3 (as amended).  One call of \<^verbatim>\<open>copy\<close> runs the legacy selection-based copy once
  when the instance is supported, the value is not null or undefined, and the modern write
  is not available, not permitted or rejects; otherwise it does not run it.  The option
  \<open>legacy\<close> only decides whether an instance without the Clipboard API is supported:
  with \<open>legacy = false\<close> the legacy copy never runs when the Clipboard API is absent,
  and runs when the API is there and the write is denied or fails.  A run in which no
  operation throws invokes the platform's copy command once, so the same counts hold of
  the invocations of the command.
\<close>

theorem copy_legacy_path:
  "legacy_runs (snd (copy opts c s)) = legacy_runs s +
     (if clipboard_isSupported opts \<and> \<not> nullish (copy_value c) \<and>
         \<not> (isClipboardApiSupported opts \<and> isAllowed (call_permissionWrite c) \<and>
            call_writeText c = Resolved)
      then 1 else 0)
   \<and> (\<not> opt_legacy opts \<longrightarrow>
        legacy_runs (snd (copy opts c s)) = legacy_runs s +
          (if isClipboardApiSupported opts \<and> \<not> nullish (copy_value c) \<and>
              \<not> (isAllowed (call_permissionWrite c) \<and> call_writeText c = Resolved)
           then 1 else 0))
   \<and> (\<not> legacy_throws c \<longrightarrow>
        legacy_copies (snd (copy opts c s)) = legacy_copies s +
          (if clipboard_isSupported opts \<and> \<not> nullish (copy_value c) \<and>
              \<not> (isClipboardApiSupported opts \<and> isAllowed (call_permissionWrite c) \<and>
                 call_writeText c = Resolved)
           then 1 else 0))
   \<and> (\<not> legacy_throws c \<and> \<not> opt_legacy opts \<longrightarrow>
        legacy_copies (snd (copy opts c s)) = legacy_copies s +
          (if isClipboardApiSupported opts \<and> \<not> nullish (copy_value c) \<and>
              \<not> (isAllowed (call_permissionWrite c) \<and> call_writeText c = Resolved)
           then 1 else 0))"
  by (auto simp: copy_legacy_runs copy_legacy_count clipboard_isSupported_def)

theorem copy_legacy_path_witness:
  "\<not> opt_legacy \<lparr>opt_navigator = Some True, opt_copiedDuring = 1500, opt_legacy = False\<rparr>
   \<and> legacy_copies (snd (copy
        \<lparr>opt_navigator = Some True, opt_copiedDuring = 1500, opt_legacy = False\<rparr>
        \<lparr>call_value = Str ''x'', call_source = Undefined,
         call_permissionWrite = Some Granted, call_writeText = Rejected,
         call_legacyCopy = None\<rparr>
        (useClipboard 0))) = 1
   \<and> legacy_runs (snd (copy
        \<lparr>opt_navigator = Some True, opt_copiedDuring = 1500, opt_legacy = False\<rparr>
        \<lparr>call_value = Str ''x'', call_source = Undefined,
         call_permissionWrite = Some Granted, call_writeText = Rejected,
         call_legacyCopy = None\<rparr>
        (useClipboard 0))) = 1
   \<and> legacy_copies (snd (copy
        \<lparr>opt_navigator = None, opt_copiedDuring = 1500, opt_legacy = False\<rparr>
        \<lparr>call_value = Str ''x'', call_source = Undefined,
         call_permissionWrite = Some Granted, call_writeText = Rejected,
         call_legacyCopy = None\<rparr>
        (useClipboard 0))) = 0
   \<and> legacy_runs (snd (copy
        \<lparr>opt_navigator = None, opt_copiedDuring = 1500, opt_legacy = False\<rparr>
        \<lparr>call_value = Str ''x'', call_source = Undefined,
         call_permissionWrite = Some Granted, call_writeText = Rejected,
         call_legacyCopy = None\<rparr>
        (useClipboard 0))) = 0"
  using
    copy_legacy_path [of
      "\<lparr>opt_navigator = Some True, opt_copiedDuring = 1500, opt_legacy = False\<rparr>"
      "\<lparr>call_value = Str ''x'', call_source = Undefined,
        call_permissionWrite = Some Granted, call_writeText = Rejected,
        call_legacyCopy = None\<rparr>"
      "useClipboard 0"]
    copy_legacy_path [of
      "\<lparr>opt_navigator = None, opt_copiedDuring = 1500, opt_legacy = False\<rparr>"
      "\<lparr>call_value = Str ''x'', call_source = Undefined,
        call_permissionWrite = Some Granted, call_writeText = Rejected,
        call_legacyCopy = None\<rparr>"
      "useClipboard 0"]
  by (simp add: isClipboardApiSupported_def isAllowed_def copy_value_def legacy_copies_def
      legacy_runs_def legacy_throws_def useClipboard_def)

text \<open>
  C3 as stated fails: an instance created with \<open>legacy = false\<close> on a platform with the
  Clipboard API, whose \<^verbatim>\<open>clipboard-write\<close> permission is denied, runs the legacy copy.
\<close>

theorem copy_legacy_counterexample:
  "\<not> opt_legacy \<lparr>opt_navigator = Some True, opt_copiedDuring = 1500, opt_legacy = False\<rparr>
   \<and> clip_effects (snd (copy
        \<lparr>opt_navigator = Some True, opt_copiedDuring = 1500, opt_legacy = False\<rparr>
        \<lparr>call_value = Str ''x'', call_source = Undefined,
         call_permissionWrite = Some Denied, call_writeText = Resolved,
         call_legacyCopy = None\<rparr>
        (useClipboard 0))) = legacyCopy ''x''"
  by (simp add: copy_def copy_value_def clipboard_isSupported_def isClipboardApiSupported_def
      isAllowed_def Let_def timeout_start_def useClipboard_def legacy_attempt_def
      legacy_throws_def)

text \<open>
  C5 (as amended).  On a supported instance, a call of \<^verbatim>\<open>copy\<close> with a value that is
  not null or undefined rejects exactly when it runs the legacy copy and an operation of
  the legacy copy throws; it then leaves the tracked text, the \<open>copied\<close> flag and the
  timer as they were.  A call that resolves sets the tracked text to the value and
  \<open>copied\<close> to true, whatever the state before.  From then on, with no further copy,
  \<open>copied\<close> is true as long as less than \<open>copiedDuring\<close> milliseconds have passed
  and false from \<open>copiedDuring\<close> milliseconds on.  A new copy that resolves restarts
  the timer: \<open>copied\<close> is true until \<open>copiedDuring\<close> milliseconds after the new
  copy, however long ago the earlier copy was.
\<close>

theorem copy_copied_timer:
  assumes "clipboard_isSupported opts" and "copy_value c = Str v"
  shows "(fst (copy opts c s) = Rejected \<longleftrightarrow>
            \<not> (isClipboardApiSupported opts \<and> isAllowed (call_permissionWrite c) \<and>
               call_writeText c = Resolved) \<and> legacy_throws c)
       \<and> (fst (copy opts c s) = Rejected \<longrightarrow>
            clip_text (snd (copy opts c s)) = clip_text s \<and>
            clip_copied (snd (copy opts c s)) = clip_copied s \<and>
            clip_timer (snd (copy opts c s)) = clip_timer s)
       \<and> (fst (copy opts c s) = Resolved \<longrightarrow>
            clip_text (snd (copy opts c s)) = v
          \<and> clip_copied (snd (copy opts c s))
          \<and> (\<forall>d. clip_copied (clipboard_advance d (snd (copy opts c s)))
                  = (d < opt_copiedDuring opts))
          \<and> (\<forall>c' v' d1 d2.
                copy_value c' = Str v' \<and>
                fst (copy opts c' (clipboard_advance d1 (snd (copy opts c s)))) = Resolved
                \<longrightarrow>
                clip_copied (clipboard_advance d2
                  (snd (copy opts c' (clipboard_advance d1 (snd (copy opts c s))))))
                = (d2 < opt_copiedDuring opts)))"
proof -
  have after: "clip_copied (clipboard_advance d (snd (copy opts k t)))
      = (d < opt_copiedDuring opts)"
    if "copy_value k = Str w" and "fst (copy opts k t) = Resolved" for k w t d
    using copy_resolved [OF assms(1) that]
    by (intro advance_copied) simp_all
  show ?thesis
    using copy_rejected_iff [OF assms, of s] copy_rejected_frame [of opts c s]
      copy_resolved [OF assms, of s] after [OF assms(2), of s] after
    by blast
qed

theorem copy_copied_timer_witness:
  "clipboard_isSupported \<lparr>opt_navigator = Some True, opt_copiedDuring = 1500, opt_legacy = False\<rparr>
   \<and> clip_text (snd (copy
        \<lparr>opt_navigator = Some True, opt_copiedDuring = 1500, opt_legacy = False\<rparr>
        \<lparr>call_value = Str ''x'', call_source = Undefined,
         call_permissionWrite = Some Granted, call_writeText = Resolved,
         call_legacyCopy = None\<rparr>
        (useClipboard 0))) = ''x''
   \<and> clip_copied (clipboard_advance 1499 (snd (copy
        \<lparr>opt_navigator = Some True, opt_copiedDuring = 1500, opt_legacy = False\<rparr>
        \<lparr>call_value = Str ''x'', call_source = Undefined,
         call_permissionWrite = Some Granted, call_writeText = Resolved,
         call_legacyCopy = None\<rparr>
        (useClipboard 0))))
   \<and> \<not> clip_copied (clipboard_advance 1500 (snd (copy
        \<lparr>opt_navigator = Some True, opt_copiedDuring = 1500, opt_legacy = False\<rparr>
        \<lparr>call_value = Str ''x'', call_source = Undefined,
         call_permissionWrite = Some Granted, call_writeText = Resolved,
         call_legacyCopy = None\<rparr>
        (useClipboard 0))))
   \<and> clip_copied (clipboard_advance 1000 (snd (copy
        \<lparr>opt_navigator = Some True, opt_copiedDuring = 1500, opt_legacy = False\<rparr>
        \<lparr>call_value = Undefined, call_source = Str ''y'',
         call_permissionWrite = Some Denied, call_writeText = Resolved,
         call_legacyCopy = None\<rparr>
        (clipboard_advance 1000 (snd (copy
          \<lparr>opt_navigator = Some True, opt_copiedDuring = 1500, opt_legacy = False\<rparr>
          \<lparr>call_value = Str ''x'', call_source = Undefined,
           call_permissionWrite = Some Granted, call_writeText = Resolved,
           call_legacyCopy = None\<rparr>
          (useClipboard 0)))))))"
proof -
  let ?opts = "\<lparr>opt_navigator = Some True, opt_copiedDuring = 1500, opt_legacy = False\<rparr>"
  let ?x = "\<lparr>call_value = Str ''x'', call_source = Undefined,
      call_permissionWrite = Some Granted, call_writeText = Resolved,
      call_legacyCopy = None\<rparr>"
  let ?y = "\<lparr>call_value = Undefined, call_source = Str ''y'',
      call_permissionWrite = Some Denied, call_writeText = Resolved,
      call_legacyCopy = None\<rparr>"
  have supported: "clipboard_isSupported ?opts"
    by (simp add: clipboard_isSupported_def isClipboardApiSupported_def)
  have x: "copy_value ?x = Str ''x''"
    by (simp add: copy_value_def)
  have y: "copy_value ?y = Str ''y''"
    by (simp add: copy_value_def)
  have no_throw: "\<not> legacy_throws ?x" "\<not> legacy_throws ?y"
    by (simp_all add: legacy_throws_def)
  have rx: "fst (copy ?opts ?x t) = Resolved" for t
    using copy_rejected_iff [OF supported x, of t] no_throw
    by (cases "fst (copy ?opts ?x t)") simp_all
  have ry: "fst (copy ?opts ?y t) = Resolved" for t
    using copy_rejected_iff [OF supported y, of t] no_throw
    by (cases "fst (copy ?opts ?y t)") simp_all
  from copy_copied_timer [OF supported x, of "useClipboard 0"] rx ry supported y
  show ?thesis by simp
qed

text \<open>
  C5 as stated fails: on an instance that is supported through the legacy fallback alone,
  on a platform whose \<^verbatim>\<open>document.execCommand\<close> throws, \<^verbatim>\<open>copy('x')\<close> rejects, the
  tracked text is not \<^verbatim>\<open>'x'\<close> and \<open>copied\<close> is false.
\<close>

theorem copy_throws_counterexample:
  "clipboard_isSupported \<lparr>opt_navigator = None, opt_copiedDuring = 1500, opt_legacy = True\<rparr>
   \<and> fst (copy \<lparr>opt_navigator = None, opt_copiedDuring = 1500, opt_legacy = True\<rparr>
        \<lparr>call_value = Str ''x'', call_source = Undefined,
         call_permissionWrite = None, call_writeText = Resolved,
         call_legacyCopy = Some 7\<rparr>
        (useClipboard 0)) = Rejected
   \<and> clip_text (snd (copy \<lparr>opt_navigator = None, opt_copiedDuring = 1500, opt_legacy = True\<rparr>
        \<lparr>call_value = Str ''x'', call_source = Undefined,
         call_permissionWrite = None, call_writeText = Resolved,
         call_legacyCopy = Some 7\<rparr>
        (useClipboard 0))) \<noteq> ''x''
   \<and> \<not> clip_copied (snd (copy
        \<lparr>opt_navigator = None, opt_copiedDuring = 1500, opt_legacy = True\<rparr>
        \<lparr>call_value = Str ''x'', call_source = Undefined,
         call_permissionWrite = None, call_writeText = Resolved,
         call_legacyCopy = Some 7\<rparr>
        (useClipboard 0)))"
  by (simp add: copy_def copy_value_def clipboard_isSupported_def isClipboardApiSupported_def
      isAllowed_def Let_def useClipboard_def legacy_throws_def legacyCopy_def)

subsection \<open>useFullscreen\<close>

lemma exit_not_fullscreen:
  "\<not> fs_isFullscreen s \<Longrightarrow> exit_fullscreen P s = (Resolved, s)"
  by (simp add: exit_fullscreen_def)

lemma enter_request:
  assumes "fullscreen_isSupported (fs_env s)" and "\<not> fs_isFullscreen s"
  shows "enter P s =
     (case requestMethod (fs_env s) of
        None \<Rightarrow> (Resolved, s)
      | Some m \<Rightarrow>
          if target_not_null (fs_env s) m then
            (case invoke P (TargetCall m) s of
               (Rejected, s2) \<Rightarrow> (Rejected, s2)
             | (Resolved, s2) \<Rightarrow> (Resolved, s2\<lparr>fs_isFullscreen := True\<rparr>))
          else (Resolved, s))"
  using assms by (simp add: enter_def exit_not_fullscreen)

text \<open>
  Whatever the platform and the state, \<^verbatim>\<open>enter\<close> calls at most one platform method,
  the request method on the target: its call of \<^verbatim>\<open>exit\<close> returns at the guard
  \<^verbatim>\<open>!isFullscreen.value\<close>, which \<^verbatim>\<open>enter\<close> has just found true.
\<close>

lemma enter_calls:
  "fs_calls (snd (enter P s)) = fs_calls s \<or>
   (\<exists>m. requestMethod (fs_env s) = Some m \<and>
        fs_calls (snd (enter P s)) = fs_calls s @ [TargetCall m])"
proof (cases "fullscreen_isSupported (fs_env s) \<and> \<not> fs_isFullscreen s")
  case True
  then show ?thesis
    by (auto simp: enter_request invoke_def split: option.splits prod.splits
        promise_outcome.splits)
next
  case False
  then show ?thesis by (auto simp: enter_def)
qed

lemma other_element_methods:
  "requestMethod other_element_fullscreen = Some ''requestFullscreen''"
  "exitMethod other_element_fullscreen = Some ''exitFullscreen''"
  "fullscreenEnabled other_element_fullscreen = Some ''webkitIsFullScreen''"
  "fullscreenElementMethod other_element_fullscreen = Some ''fullscreenElement''"
  by (simp_all add: requestMethod_def exitMethod_def fullscreenEnabled_def
      fullscreenElementMethod_def other_element_fullscreen_def in_document_def in_target_def
      has_key_def)

lemma other_element_supported: "fullscreen_isSupported other_element_fullscreen"
  by (simp add: fullscreen_isSupported_def other_element_methods)
     (simp add: other_element_fullscreen_def)

lemma other_element_isElementFullScreen:
  "isElementFullScreen other_element_fullscreen = JBoolean True"
  by (simp add: isElementFullScreen_def other_element_methods)
     (simp add: other_element_fullscreen_def document_not_null_def not_null_def get_prop_def)

lemma other_element_not_current: "\<not> isCurrentElementFullScreen other_element_fullscreen"
  by (simp add: isCurrentElementFullScreen_def other_element_methods)
     (simp add: other_element_fullscreen_def get_prop_def)

lemma other_element_target:
  "target_not_null other_element_fullscreen ''requestFullscreen''"
  by (simp add: other_element_fullscreen_def target_not_null_def not_null_def get_prop_def)

lemma other_element_document:
  "document_not_null other_element_fullscreen ''exitFullscreen''"
  by (simp add: other_element_fullscreen_def document_not_null_def not_null_def get_prop_def)

lemma useFullscreen_other_element:
  "useFullscreen other_element_fullscreen =
     \<lparr>fs_isFullscreen = False, fs_env = other_element_fullscreen, fs_calls = []\<rparr>"
  by (simp add: useFullscreen_def handlerCallback_def other_element_isElementFullScreen
      other_element_not_current)

lemma nothing_fullscreen_methods:
  "requestMethod nothing_fullscreen = Some ''requestFullscreen''"
  "exitMethod nothing_fullscreen = Some ''exitFullscreen''"
  "fullscreenEnabled nothing_fullscreen = Some ''webkitIsFullScreen''"
  by (simp_all add: requestMethod_def exitMethod_def fullscreenEnabled_def
      nothing_fullscreen_def in_document_def in_target_def has_key_def)

lemma nothing_fullscreen_supported: "fullscreen_isSupported nothing_fullscreen"
  by (simp add: fullscreen_isSupported_def nothing_fullscreen_methods)
     (simp add: nothing_fullscreen_def)

lemma nothing_fullscreen_isElementFullScreen:
  "isElementFullScreen nothing_fullscreen = JBoolean False"
  by (simp add: isElementFullScreen_def nothing_fullscreen_methods)
     (simp add: nothing_fullscreen_def document_not_null_def not_null_def get_prop_def)

lemma nothing_fullscreen_target:
  "target_not_null nothing_fullscreen ''requestFullscreen''"
  by (simp add: nothing_fullscreen_def target_not_null_def not_null_def get_prop_def)

lemma useFullscreen_nothing:
  "useFullscreen nothing_fullscreen =
     \<lparr>fs_isFullscreen = False, fs_env = nothing_fullscreen, fs_calls = []\<rparr>"
  by (simp add: useFullscreen_def handlerCallback_def nothing_fullscreen_isElementFullScreen)

text \<open>
  C2, evaluated where the code departs from it.  The page is in fullscreen for element 2,
  the controller's target is element 1, the controller is supported and its own
  \<open>isFullscreen\<close> is false.  \<^verbatim>\<open>enter\<close> then calls one platform method, the request
  on the target: the document's \<^verbatim>\<open>exitFullscreen\<close>, which is there to be called, is
  not called before it.
\<close>

theorem enter_skips_exit:
  "fullscreen_isSupported other_element_fullscreen
   \<and> fs_isFullscreen (useFullscreen other_element_fullscreen) = False
   \<and> js_truthy (isElementFullScreen other_element_fullscreen)
   \<and> isCurrentElementFullScreen other_element_fullscreen = False
   \<and> exitMethod other_element_fullscreen = Some ''exitFullscreen''
   \<and> document_not_null other_element_fullscreen ''exitFullscreen''
   \<and> fs_calls (snd (enter resolving_platform (useFullscreen other_element_fullscreen)))
       = [TargetCall ''requestFullscreen'']
   \<and> fs_isFullscreen (snd (enter resolving_platform (useFullscreen other_element_fullscreen)))"
  by (simp add: other_element_supported other_element_isElementFullScreen
      other_element_not_current other_element_methods other_element_document
      useFullscreen_other_element enter_request other_element_target invoke_def
      resolving_platform_def)

text \<open>
  C4 (as amended).  \<^verbatim>\<open>enter\<close> does not catch a rejection of the platform's fullscreen
  request: when the request it issues rejects, the promise \<^verbatim>\<open>enter\<close> returns rejects
  too, and \<open>isFullscreen\<close> stays false.  \<^verbatim>\<open>copy\<close> does catch a rejection of the
  clipboard write: the legacy copy runs right after the failed write, and the promise of
  \<^verbatim>\<open>copy\<close> resolves; it rejects only when an operation of the legacy copy itself
  throws.
\<close>

theorem rejection_handling:
  "(fullscreen_isSupported (fs_env s) \<and> \<not> fs_isFullscreen s \<and>
    requestMethod (fs_env s) = Some m \<and> target_not_null (fs_env s) m \<and>
    fst (P (fs_env s) (TargetCall m)) = Rejected
    \<longrightarrow> fst (enter P s) = Rejected \<and> \<not> fs_isFullscreen (snd (enter P s)))
   \<and> (isClipboardApiSupported opts \<and> isAllowed (call_permissionWrite c) \<and>
      copy_value c = Str v \<and> call_writeText c = Rejected
    \<longrightarrow> legacy_runs (snd (copy opts c t)) = legacy_runs t + 1 \<and>
        clip_effects (snd (copy opts c t)) = clip_effects t @ WriteText v # legacy_attempt c v \<and>
        (fst (copy opts c t) = Rejected \<longleftrightarrow> legacy_throws c) \<and>
        (\<not> legacy_throws c \<longrightarrow>
           fst (copy opts c t) = Resolved \<and>
           clip_effects (snd (copy opts c t)) = clip_effects t @ WriteText v # legacyCopy v))"
proof (intro conjI impI)
  assume a: "fullscreen_isSupported (fs_env s) \<and> \<not> fs_isFullscreen s \<and>
    requestMethod (fs_env s) = Some m \<and> target_not_null (fs_env s) m \<and>
    fst (P (fs_env s) (TargetCall m)) = Rejected"
  then have e: "enter P s =
      (case invoke P (TargetCall m) s of
         (Rejected, s2) \<Rightarrow> (Rejected, s2)
       | (Resolved, s2) \<Rightarrow> (Resolved, s2\<lparr>fs_isFullscreen := True\<rparr>))"
    by (simp add: enter_request)
  obtain e' where "P (fs_env s) (TargetCall m) = (Rejected, e')"
    using a by (cases "P (fs_env s) (TargetCall m)") simp
  with e have "enter P s = (Rejected, s\<lparr>fs_env := e', fs_calls := fs_calls s @ [TargetCall m]\<rparr>)"
    by (simp add: invoke_def)
  with a show "fst (enter P s) = Rejected" and "\<not> fs_isFullscreen (snd (enter P s))"
    by simp_all
next
  assume b: "isClipboardApiSupported opts \<and> isAllowed (call_permissionWrite c) \<and>
      copy_value c = Str v \<and> call_writeText c = Rejected"
  then show effects:
    "clip_effects (snd (copy opts c t)) = clip_effects t @ WriteText v # legacy_attempt c v"
    by (simp add: copy_def clipboard_isSupported_def Let_def timeout_start_def)
  from b show "legacy_runs (snd (copy opts c t)) = legacy_runs t + 1"
    by (simp add: copy_legacy_runs clipboard_isSupported_def)
  from b show outcome: "fst (copy opts c t) = Rejected \<longleftrightarrow> legacy_throws c"
    by (simp add: copy_def clipboard_isSupported_def Let_def)
  assume c: "\<not> legacy_throws c"
  with outcome show "fst (copy opts c t) = Resolved"
    by (cases "fst (copy opts c t)") simp_all
  from effects c
  show "clip_effects (snd (copy opts c t)) = clip_effects t @ WriteText v # legacyCopy v"
    by (simp add: legacy_attempt_complete)
qed

theorem rejection_handling_witness:
  "fst (enter rejecting_platform (useFullscreen other_element_fullscreen)) = Rejected
   \<and> \<not> fs_isFullscreen (snd (enter rejecting_platform (useFullscreen other_element_fullscreen)))
   \<and> fst (copy \<lparr>opt_navigator = Some True, opt_copiedDuring = 1500, opt_legacy = True\<rparr>
        \<lparr>call_value = Str ''x'', call_source = Undefined,
         call_permissionWrite = Some Prompt, call_writeText = Rejected,
         call_legacyCopy = None\<rparr>
        (useClipboard 0)) = Resolved
   \<and> clip_effects (snd (copy
        \<lparr>opt_navigator = Some True, opt_copiedDuring = 1500, opt_legacy = True\<rparr>
        \<lparr>call_value = Str ''x'', call_source = Undefined,
         call_permissionWrite = Some Prompt, call_writeText = Rejected,
         call_legacyCopy = None\<rparr>
        (useClipboard 0))) = clip_effects (useClipboard 0) @ WriteText ''x'' # legacyCopy ''x''"
proof -
  let ?s = "useFullscreen other_element_fullscreen"
  let ?opts = "\<lparr>opt_navigator = Some True, opt_copiedDuring = 1500, opt_legacy = True\<rparr>"
  let ?c = "\<lparr>call_value = Str ''x'', call_source = Undefined,
      call_permissionWrite = Some Prompt, call_writeText = Rejected,
      call_legacyCopy = None\<rparr>"
  have request: "fullscreen_isSupported (fs_env ?s) \<and> \<not> fs_isFullscreen ?s \<and>
      requestMethod (fs_env ?s) = Some ''requestFullscreen'' \<and>
      target_not_null (fs_env ?s) ''requestFullscreen'' \<and>
      fst (rejecting_platform (fs_env ?s) (TargetCall ''requestFullscreen'')) = Rejected"
    by (simp add: useFullscreen_other_element other_element_supported other_element_methods
        other_element_target rejecting_platform_def)
  have wr: "isClipboardApiSupported ?opts \<and> isAllowed (call_permissionWrite ?c) \<and>
      copy_value ?c = Str ''x'' \<and> call_writeText ?c = Rejected"
    by (simp add: isClipboardApiSupported_def isAllowed_def copy_value_def)
  have no_throw: "\<not> legacy_throws ?c"
    by (simp add: legacy_throws_def)
  from rejection_handling [of ?s "''requestFullscreen''" rejecting_platform ?opts ?c "''x''"
      "useClipboard 0"] request wr no_throw
  show ?thesis by blast
qed

text \<open>
  C4 as stated fails: with nothing in fullscreen and a platform that rejects the request,
  the promise of \<^verbatim>\<open>enter\<close> rejects.
\<close>

theorem enter_rejects_counterexample:
  "fullscreen_isSupported nothing_fullscreen
   \<and> fst (enter rejecting_platform (useFullscreen nothing_fullscreen)) = Rejected"
  by (simp add: nothing_fullscreen_supported useFullscreen_nothing enter_request
      nothing_fullscreen_methods nothing_fullscreen_target invoke_def rejecting_platform_def)

subsection \<open>useElementHover\<close>

lemma whole_delay_bound:
  assumes "r \<in> \<int>" and "r < 2 ^ 31"
  shows "r \<le> real (timeout_delay (Num r))"
proof -
  from assms(1) obtain n where n: "r = of_int n" by (rule Ints_cases)
  show ?thesis
  proof (cases "0 \<le> n")
    case True
    from assms(2) n have "n < 2 ^ 31" by (simp flip: of_int_less_iff)
    with True have "to_int32 (Num r) = n"
      by (simp add: to_int32_def n Let_def)
    with True n show ?thesis by (simp add: timeout_delay_def)
  next
    case False
    with n have "r < 0" by simp
    then show ?thesis by (simp add: order.strict_implies_order order_trans [of r 0])
  qed
qed

lemma timeout_delay_examples:
  "timeout_delay (Num 100) = 100"
  "timeout_delay (Num 2147483648) = 0"
  by (simp_all add: timeout_delay_def to_int32_def Let_def)

lemma useElementHover_inv: "hover_inv opts (useElementHover t0) (t0, None)"
  by (simp add: hover_inv_def useElementHover_def)

lemma toggle_pending:
  assumes "hover_inv opts s g"
  shows "hov_pending (toggle opts entering s) =
     (if number_truthy (delay_of opts entering)
      then [(hov_next s, hov_now s + timeout_delay (delay_of opts entering), entering)]
      else [])"
  using assms
  by (auto simp: hover_inv_def toggle_def Let_def clearTimeout_def setTimeout_def
      split: option.splits)

lemma toggle_isHovered:
  "hov_isHovered (toggle opts entering s) =
     (if number_truthy (delay_of opts entering) then hov_isHovered s else entering)"
  by (simp add: toggle_def Let_def clearTimeout_def setTimeout_def split: option.splits)

lemma toggle_inv:
  assumes "hover_inv opts s (t, l)"
  shows "hover_inv opts (toggle opts entering s) (t, Some (entering, t))"
  using assms
  by (auto simp: hover_inv_def toggle_def Let_def clearTimeout_def setTimeout_def
      split: option.splits)

lemma elapse_nil:
  "hov_pending s = [] \<Longrightarrow> hover_elapse dt s = s\<lparr>hov_pending := [], hov_now := hov_now s + dt\<rparr>"
  by (simp add: hover_elapse_def)

lemma elapse_single:
  "hov_pending s = [(h, d, e)] \<Longrightarrow>
   hover_elapse dt s =
     (if d \<le> hov_now s + dt
      then s\<lparr>hov_pending := [], hov_now := hov_now s + dt, hov_isHovered := e\<rparr>
      else s\<lparr>hov_pending := [(h, d, e)], hov_now := hov_now s + dt\<rparr>)"
  by (simp add: hover_elapse_def)

lemma elapse_inv:
  assumes "hover_inv opts s (t, l)"
  shows "hover_inv opts (hover_elapse dt s) (t + dt, l)"
proof (cases "hov_pending s")
  case Nil
  with assms show ?thesis by (simp add: elapse_nil hover_inv_def)
next
  case (Cons p ps)
  with assms obtain h e t1
    where p: "hov_pending s = [(h, t1 + timeout_delay (delay_of opts e), e)]"
    and rest: "hov_timer s = Some h" "l = Some (e, t1)" "number_truthy (delay_of opts e)"
    by (auto simp: hover_inv_def)
  from assms rest show ?thesis
    by (simp add: elapse_single [OF p] hover_inv_def)
qed

lemma step_inv:
  assumes "hover_inv opts s g"
  shows "hover_inv opts (hover_step opts s e) (hover_history opts g e)"
  using assms by (cases g; cases e) (simp_all add: toggle_inv elapse_inv)

lemma run_inv:
  assumes "hover_inv opts s g"
  shows "hover_inv opts (hover_run opts s es) (foldl (hover_history opts) g es)"
  using assms unfolding hover_run_def
  by (induction es arbitrary: s g) (simp_all add: step_inv)

lemma elapse_flip:
  assumes "hover_inv opts s (t, l)"
    and "hov_isHovered (hover_elapse dt s) \<noteq> hov_isHovered s"
  shows "\<exists>t1. l = Some (hov_isHovered (hover_elapse dt s), t1) \<and>
            t1 + timeout_delay (delay_of opts (hov_isHovered (hover_elapse dt s)))
              \<le> hov_now s + dt"
proof (cases "hov_pending s")
  case Nil
  with assms(2) show ?thesis by (simp add: elapse_nil)
next
  case (Cons p ps)
  with assms(1) obtain h e t1
    where p: "hov_pending s = [(h, t1 + timeout_delay (delay_of opts e), e)]"
    and rest: "l = Some (e, t1)"
    by (auto simp: hover_inv_def)
  from assms(2) rest show ?thesis
    by (simp add: elapse_single [OF p] split: if_splits)
qed

lemma elapse_flip_enter:
  assumes "hover_inv opts s (t, l)"
    and "hov_delayEnter opts = Num a" and "a \<in> \<int>" and "a < 2 ^ 31"
    and "\<not> hov_isHovered s" and "hov_isHovered (hover_elapse dt s)"
  shows "\<exists>t1. l = Some (True, t1) \<and> real t1 + a \<le> real (hov_now s + dt)"
proof -
  from elapse_flip [OF assms(1), of dt] assms(5,6) obtain t1
    where l: "l = Some (True, t1)"
      and due: "t1 + timeout_delay (delay_of opts True) \<le> hov_now s + dt"
    by auto
  from due assms(2) have "real t1 + real (timeout_delay (Num a)) \<le> real (hov_now s + dt)"
    by (simp add: delay_of_def flip: of_nat_add)
  with whole_delay_bound [OF assms(3,4)] l show ?thesis by auto
qed

lemma elapse_flip_leave:
  assumes "hover_inv opts s (t, l)"
    and "hov_delayLeave opts = Num b" and "b \<in> \<int>" and "b < 2 ^ 31"
    and "hov_isHovered s" and "\<not> hov_isHovered (hover_elapse dt s)"
  shows "\<exists>t1. l = Some (False, t1) \<and> real t1 + b \<le> real (hov_now s + dt)"
proof -
  from elapse_flip [OF assms(1), of dt] assms(5,6) obtain t1
    where l: "l = Some (False, t1)"
      and due: "t1 + timeout_delay (delay_of opts False) \<le> hov_now s + dt"
    by auto
  from due assms(2) have "real t1 + real (timeout_delay (Num b)) \<le> real (hov_now s + dt)"
    by (simp add: delay_of_def flip: of_nat_add)
  with whole_delay_bound [OF assms(3,4)] l show ?thesis by auto
qed

text \<open>
  C6 (as amended).  In every state that pointer-enter and pointer-leave events and
  elapsed time lead to from setup: a call of \<^verbatim>\<open>toggle\<close> (each pointer event makes one)
  leaves no earlier timeout pending, so a scheduled transition that has not fired is
  cancelled: what is pending after the call is the timeout the call scheduled itself, for
  the time now plus what the platform makes of \<open>delayEnter\<close> (for an enter) or of
  \<open>delayLeave\<close> (for a leave), or nothing when that delay is 0 or NaN.  A call whose
  delay is 0 (or NaN) sets the hover state at once, and one with another delay leaves it
  as it is.  And for a \<open>delayEnter\<close> that is a whole number below \<open>2^31\<close>: when
  the hover state becomes true while time elapses, the last pointer event was an enter
  (no leave came after it) and at least \<open>delayEnter\<close> milliseconds have passed since
  it; likewise for \<open>delayLeave\<close>, a leave and the hover state becoming false.
\<close>

theorem hover_transitions:
  "hov_pending (toggle opts True (hover_run opts (useElementHover t0) es)) =
     (if number_truthy (hov_delayEnter opts)
      then [(hov_next (hover_run opts (useElementHover t0) es),
             hov_now (hover_run opts (useElementHover t0) es)
               + timeout_delay (hov_delayEnter opts),
             True)]
      else [])
   \<and> hov_pending (toggle opts False (hover_run opts (useElementHover t0) es)) =
     (if number_truthy (hov_delayLeave opts)
      then [(hov_next (hover_run opts (useElementHover t0) es),
             hov_now (hover_run opts (useElementHover t0) es)
               + timeout_delay (hov_delayLeave opts),
             False)]
      else [])
   \<and> hov_isHovered (toggle opts True (hover_run opts (useElementHover t0) es)) =
     (if hov_delayEnter opts = Num 0 \<or> hov_delayEnter opts = NaN then True
      else hov_isHovered (hover_run opts (useElementHover t0) es))
   \<and> hov_isHovered (toggle opts False (hover_run opts (useElementHover t0) es)) =
     (if hov_delayLeave opts = Num 0 \<or> hov_delayLeave opts = NaN then False
      else hov_isHovered (hover_run opts (useElementHover t0) es))
   \<and> (hov_delayEnter opts = Num a \<and> a \<in> \<int> \<and> a < 2 ^ 31 \<and>
      \<not> hov_isHovered (hover_run opts (useElementHover t0) es) \<and>
      hov_isHovered (hover_elapse dt (hover_run opts (useElementHover t0) es)) \<longrightarrow>
      (\<exists>t1. last_pointer_event opts t0 es = Some (True, t1) \<and>
            real t1 + a \<le> real (hov_now (hover_run opts (useElementHover t0) es) + dt)))
   \<and> (hov_delayLeave opts = Num b \<and> b \<in> \<int> \<and> b < 2 ^ 31 \<and>
      hov_isHovered (hover_run opts (useElementHover t0) es) \<and>
      \<not> hov_isHovered (hover_elapse dt (hover_run opts (useElementHover t0) es)) \<longrightarrow>
      (\<exists>t1. last_pointer_event opts t0 es = Some (False, t1) \<and>
            real t1 + b \<le> real (hov_now (hover_run opts (useElementHover t0) es) + dt)))"
proof -
  let ?s = "hover_run opts (useElementHover t0) es"
  let ?g = "foldl (hover_history opts) (t0, None) es"
  have inv: "hover_inv opts ?s ?g"
    by (rule run_inv) (rule useElementHover_inv)
  then have inv': "hover_inv opts ?s (fst ?g, last_pointer_event opts t0 es)"
    by (simp add: last_pointer_event_def)
  have truthy: "number_truthy x \<longleftrightarrow> \<not> (x = Num 0 \<or> x = NaN)" for x
    by (cases x) simp_all
  have pending: "hov_pending (toggle opts True ?s) =
     (if number_truthy (hov_delayEnter opts)
      then [(hov_next ?s, hov_now ?s + timeout_delay (hov_delayEnter opts), True)] else [])"
    "hov_pending (toggle opts False ?s) =
     (if number_truthy (hov_delayLeave opts)
      then [(hov_next ?s, hov_now ?s + timeout_delay (hov_delayLeave opts), False)] else [])"
    using toggle_pending [OF inv, of True] toggle_pending [OF inv, of False]
    by (simp_all add: delay_of_def)
  have applied: "hov_isHovered (toggle opts True ?s) =
     (if hov_delayEnter opts = Num 0 \<or> hov_delayEnter opts = NaN then True
      else hov_isHovered ?s)"
    "hov_isHovered (toggle opts False ?s) =
     (if hov_delayLeave opts = Num 0 \<or> hov_delayLeave opts = NaN then False
      else hov_isHovered ?s)"
    using truthy [of "hov_delayEnter opts"] truthy [of "hov_delayLeave opts"]
    by (simp_all add: toggle_isHovered delay_of_def)
  have enter: "\<exists>t1. last_pointer_event opts t0 es = Some (True, t1) \<and>
      real t1 + a \<le> real (hov_now ?s + dt)"
    if "hov_delayEnter opts = Num a \<and> a \<in> \<int> \<and> a < 2 ^ 31 \<and>
      \<not> hov_isHovered ?s \<and> hov_isHovered (hover_elapse dt ?s)"
    using that elapse_flip_enter [OF inv', of a dt] by blast
  have leave: "\<exists>t1. last_pointer_event opts t0 es = Some (False, t1) \<and>
      real t1 + b \<le> real (hov_now ?s + dt)"
    if "hov_delayLeave opts = Num b \<and> b \<in> \<int> \<and> b < 2 ^ 31 \<and>
      hov_isHovered ?s \<and> \<not> hov_isHovered (hover_elapse dt ?s)"
    using that elapse_flip_leave [OF inv', of b dt] by blast
  from pending applied enter leave show ?thesis by blast
qed

lemma short_delay_run:
  "hover_run short_delay (useElementHover 0) [MouseEnter, Elapse 50, MouseEnter, Elapse 60] =
   \<lparr>hov_isHovered = False, hov_timer = Some 2, hov_pending = [(2, 150, True)],
    hov_next = 3, hov_now = 110\<rparr>"
  by (simp add: hover_run_def useElementHover_def toggle_def delay_of_def Let_def
      clearTimeout_def setTimeout_def hover_elapse_def short_delay_def
      timeout_delay_examples)

theorem hover_transitions_witness:
  "\<not> hov_isHovered
       (hover_run short_delay (useElementHover 0) [MouseEnter, Elapse 50, MouseEnter, Elapse 60])
   \<and> hov_isHovered (hover_elapse 40
       (hover_run short_delay (useElementHover 0) [MouseEnter, Elapse 50, MouseEnter, Elapse 60]))
   \<and> (\<exists>t1. last_pointer_event short_delay 0 [MouseEnter, Elapse 50, MouseEnter, Elapse 60]
            = Some (True, t1)
          \<and> real t1 + 100 \<le> 150)
   \<and> hov_pending (toggle short_delay False
       (hover_run short_delay (useElementHover 0) [MouseEnter, Elapse 50, MouseEnter, Elapse 60]))
     = []"
proof -
  let ?s = "hover_run short_delay (useElementHover 0)
      [MouseEnter, Elapse 50, MouseEnter, Elapse 60]"
  have before: "\<not> hov_isHovered ?s"
    by (simp add: short_delay_run)
  have flip: "hov_isHovered (hover_elapse 40 ?s)"
    by (simp add: short_delay_run hover_elapse_def)
  have delay: "hov_delayEnter short_delay = Num 100 \<and> (100::real) \<in> \<int> \<and> (100::real) < 2 ^ 31"
    by (simp add: short_delay_def)
  have now: "hov_now ?s + 40 = 150"
    by (simp add: short_delay_run)
  have leave: "\<not> number_truthy (hov_delayLeave short_delay)"
    by (simp add: short_delay_def)
  from hover_transitions [of short_delay 0 "[MouseEnter, Elapse 50, MouseEnter, Elapse 60]"
      100 40] before flip delay now leave
  show ?thesis by simp
qed

text \<open>
  C6 as stated fails: the platform reduces the delay of a timeout to a 32-bit signed
  integer, so with \<open>delayEnter = 2^31\<close> the hover state becomes true within a
  millisecond of the enter, not \<open>2^31\<close> milliseconds after it.
\<close>

theorem hover_early_counterexample:
  "hov_delayEnter long_delay = Num 2147483648
   \<and> \<not> hov_isHovered (hover_run long_delay (useElementHover 0) [MouseEnter])
   \<and> hov_isHovered (hover_run long_delay (useElementHover 0) [MouseEnter, Elapse 1])
   \<and> last_pointer_event long_delay 0 [MouseEnter, Elapse 1] = Some (True, 0)
   \<and> hov_now (hover_run long_delay (useElementHover 0) [MouseEnter, Elapse 1]) = 1"
  by (simp add: hover_run_def useElementHover_def toggle_def delay_of_def Let_def
      clearTimeout_def setTimeout_def hover_elapse_def long_delay_def
      timeout_delay_examples last_pointer_event_def)

subsection \<open>useActiveElement\<close>

lemma descend_no_shadow: "\<not> hosts_shadow (descend e)"
  by (induction e rule: descend.induct) simp_all

lemma descend_last:
  "descend e = (case last (shadow_path e) of
                  Element i None \<Rightarrow> Ref (Element i None)
                | Element i (Some r) \<Rightarrow> RefNull)"
proof (induction e rule: descend.induct)
  case (3 i e)
  have "shadow_path e \<noteq> []" by (cases e rule: shadow_path.cases) simp_all
  with 3 show ?case by simp
qed simp_all

lemma getDeep_no_shadow:
  "act_deep opts \<Longrightarrow> \<not> hosts_shadow (getDeepActiveElement opts doc)"
  by (simp add: getDeepActiveElement_def descend_no_shadow split: option.splits document.splits)

lemma active_run_last_report:
  "act_window opts \<Longrightarrow>
   active_run opts (getDeepActiveElement opts d) es =
   getDeepActiveElement opts (foldl last_report d es)"
  unfolding active_run_def
proof (induction es arbitrary: d)
  case Nil
  then show ?case by simp
next
  case (Cons e es)
  then show ?case by (cases e) simp_all
qed

text \<open>
  C7.  With a window: a blur whose \<^verbatim>\<open>relatedTarget\<close> is not null leaves the tracked
  element as it is; a blur whose \<^verbatim>\<open>relatedTarget\<close> is null, and every focus, set it to
  what \<^verbatim>\<open>getDeepActiveElement\<close> returns for the document at that moment.  So after
  any sequence of focus and blur events the tracked element is what
  \<^verbatim>\<open>getDeepActiveElement\<close> returned at the last focus or blur with a null
  \<^verbatim>\<open>relatedTarget\<close>, or at setup.  With \<open>deep\<close>, that result is the document's
  active element descended through the nested shadow roots: the end of the path of
  active elements when that element hosts no shadow root, null when its shadow root has no
  active element, and never an element that hosts a shadow root.  Without \<open>deep\<close> it
  is the document's active element itself.
\<close>

theorem active_element_tracking:
  assumes "act_window opts"
  shows "(relatedTarget \<noteq> RefNull \<longrightarrow>
            active_step opts tracked (Blur relatedTarget doc) = tracked)
       \<and> active_step opts tracked (Blur RefNull doc) = getDeepActiveElement opts doc
       \<and> active_step opts tracked (Focus doc) = getDeepActiveElement opts doc
       \<and> active_run opts (useActiveElement opts d0) es =
           getDeepActiveElement opts (foldl last_report d0 es)
       \<and> (act_deep opts \<longrightarrow> \<not> hosts_shadow (getDeepActiveElement opts doc))
       \<and> (act_deep opts \<longrightarrow>
            getDeepActiveElement opts (Some (Document (Some e))) =
              (case last (shadow_path e) of
                 Element i None \<Rightarrow> Ref (Element i None)
               | Element i (Some r) \<Rightarrow> RefNull))
       \<and> (\<not> act_deep opts \<longrightarrow>
            getDeepActiveElement opts (Some (Document (Some e))) = Ref e)"
  using assms active_run_last_report [OF assms, of d0 es] getDeep_no_shadow [of opts doc]
    descend_last [of e]
  by (simp add: useActiveElement_def getDeepActiveElement_def)

theorem active_element_tracking_witness:
  "active_run \<lparr>act_window = True, act_deep = True\<rparr>
     (useActiveElement \<lparr>act_window = True, act_deep = True\<rparr> (Some (Document None)))
     [Focus (Some (Document (Some nested_focus))),
      Blur (Ref (Element 4 None)) (Some (Document (Some (Element 4 None))))]
   = Ref (Element 3 None)
   \<and> active_run \<lparr>act_window = True, act_deep = True\<rparr>
     (useActiveElement \<lparr>act_window = True, act_deep = True\<rparr> (Some (Document None)))
     [Focus (Some (Document (Some nested_focus))),
      Blur RefNull (Some (Document (Some (Element 4 None))))]
   = Ref (Element 4 None)
   \<and> active_step \<lparr>act_window = True, act_deep = True\<rparr> (Ref (Element 3 None))
       (Blur (Ref (Element 4 None)) (Some (Document (Some (Element 4 None)))))
   = Ref (Element 3 None)
   \<and> \<not> hosts_shadow (getDeepActiveElement \<lparr>act_window = True, act_deep = True\<rparr>
       (Some (Document (Some nested_focus))))
   \<and> getDeepActiveElement \<lparr>act_window = True, act_deep = False\<rparr>
       (Some (Document (Some nested_focus))) = Ref nested_focus"
  using
    active_element_tracking [of "\<lparr>act_window = True, act_deep = True\<rparr>"
      "Ref (Element 4 None)" "Ref (Element 3 None)" "Some (Document (Some (Element 4 None)))"
      "Some (Document None)"
      "[Focus (Some (Document (Some nested_focus))),
        Blur (Ref (Element 4 None)) (Some (Document (Some (Element 4 None))))]"]
    active_element_tracking [of "\<lparr>act_window = True, act_deep = True\<rparr>"
      RefNull "Ref (Element 3 None)" "Some (Document (Some nested_focus))"
      "Some (Document None)"
      "[Focus (Some (Document (Some nested_focus))),
        Blur RefNull (Some (Document (Some (Element 4 None))))]"]
    active_element_tracking [of "\<lparr>act_window = True, act_deep = False\<rparr>"
      RefNull "Ref (Element 3 None)" "Some (Document (Some nested_focus))"
      "Some (Document None)" "[]" nested_focus]
  by (simp add: getDeepActiveElement_def nested_focus_def)

subsection \<open>useCssVar\<close>

lemma write_variable_variable: "css_variable (write_variable opts s) = css_variable s"
  by (simp add: write_variable_def split: option.splits jsstring.splits)

lemma css_set_variable: "css_variable (css_set opts v s) = v"
  by (simp add: css_set_def write_variable_variable)

lemma css_read_variable:
  "css_variable (css_read opts s reading) = css_variable (updateCssVar opts reading s)"
  by (simp add: css_read_def css_set_variable)

lemma truthy_Str: "truthy v \<Longrightarrow> \<exists>x. v = Str x \<and> x \<noteq> []"
  by (cases v) simp_all

lemma updateCssVar_variable:
  assumes "can_read opts"
  shows "css_variable (updateCssVar opts reading s) =
     (if truthy (trimmed reading) then trimmed reading
      else if truthy (css_variable s) then css_variable s
      else css_initialValue opts)"
  using assms by (simp add: updateCssVar_def js_or_def)

lemma last_nonempty_snoc:
  "last_nonempty (rs @ [r]) =
     (case trimmed r of
        Str v \<Rightarrow> if v \<noteq> [] then Some v else last_nonempty rs
      | Undefined \<Rightarrow> last_nonempty rs
      | Null \<Rightarrow> last_nonempty rs)"
  by (induction rs) (auto split: option.splits jsstring.splits)

lemma reads_last_nonempty:
  assumes "can_read opts"
  shows "css_variable (foldl (css_read opts) (useCssVar opts r0) rs) =
     (case last_nonempty (r0 # rs) of Some v \<Rightarrow> Str v | None \<Rightarrow> css_initialValue opts)"
proof (induction rs rule: rev_induct)
  case Nil
  show ?case
    using assms
    by (cases "trimmed r0"; cases "css_initialValue opts")
       (simp_all add: useCssVar_def write_variable_variable updateCssVar_variable)
next
  case (snoc r rs)
  have "last_nonempty (r0 # rs @ [r]) = last_nonempty ((r0 # rs) @ [r])" by simp
  also have "\<dots> = (case trimmed r of
        Str v \<Rightarrow> if v \<noteq> [] then Some v else last_nonempty (r0 # rs)
      | Undefined \<Rightarrow> last_nonempty (r0 # rs)
      | Null \<Rightarrow> last_nonempty (r0 # rs))"
    by (rule last_nonempty_snoc)
  finally have l: "last_nonempty (r0 # rs @ [r]) = (case trimmed r of
        Str v \<Rightarrow> if v \<noteq> [] then Some v else last_nonempty (r0 # rs)
      | Undefined \<Rightarrow> last_nonempty (r0 # rs)
      | Null \<Rightarrow> last_nonempty (r0 # rs))" .
  have ne: "last_nonempty xs = Some v \<Longrightarrow> v \<noteq> []" for xs v
    by (induction xs) (auto split: option.splits jsstring.splits if_splits)
  show ?case
    using snoc assms ne [of "r0 # rs"]
    by (cases "trimmed r"; cases "last_nonempty (r0 # rs)"; cases "css_initialValue opts")
       (simp_all only: l foldl_append foldl.simps css_read_variable updateCssVar_variable
          truthy.simps jsstring.case option.case if_True if_False split: if_splits, simp_all)
qed


text \<open>
  C9 (as amended).  Where \<^verbatim>\<open>updateCssVar\<close> reads at all (there is an element, a
  window and a property name): when the computed value is empty once trimmed, the cell
  keeps its previous value if that is a non-empty string, and otherwise (the previous
  value is undefined, null or the empty string) takes \<open>initialValue\<close>; when the
  computed value is not empty, the cell takes it, trimmed.  So a read leaves the empty
  string in the cell only if \<open>initialValue\<close> is the empty string, and after
  \<^verbatim>\<open>useCssVar\<close> and any sequence of reads the cell holds the last reading that was
  not empty, or \<open>initialValue\<close> when every reading was empty.
\<close>

theorem read_keeps_nonempty:
  assumes "can_read opts"
  shows "(\<not> truthy (trimmed reading) \<longrightarrow>
            css_variable (updateCssVar opts reading s) =
              (if truthy (css_variable s) then css_variable s else css_initialValue opts))
       \<and> (truthy (trimmed reading) \<longrightarrow>
            css_variable (updateCssVar opts reading s) = trimmed reading)
       \<and> (css_initialValue opts \<noteq> Str [] \<longrightarrow>
            css_variable (updateCssVar opts reading s) \<noteq> Str [])
       \<and> css_variable (foldl (css_read opts) (useCssVar opts r0) rs) =
            (case last_nonempty (r0 # rs) of
               Some v \<Rightarrow> Str v
             | None \<Rightarrow> css_initialValue opts)"
proof -
  have "css_variable (updateCssVar opts reading s) \<noteq> Str []"
    if "css_initialValue opts \<noteq> Str []"
    using that truthy_Str [of "trimmed reading"] truthy_Str [of "css_variable s"]
    by (auto simp: updateCssVar_variable [OF assms])
  then show ?thesis
    using reads_last_nonempty [OF assms, of r0 rs]
    by (simp add: updateCssVar_variable [OF assms])
qed

lemma root_color_can_read: "can_read root_color"
  by (simp add: can_read_def root_color_def units_def)

lemma root_color_empty_can_read: "can_read root_color_empty"
  by (simp add: can_read_def root_color_empty_def root_color_def units_def)

lemma units_examples:
  "units ''blue'' = [98, 108, 117, 101]"
  "units '' blue '' = [32, 98, 108, 117, 101, 32]"
  "units ''red'' = [114, 101, 100]"
  "units ''green'' = [103, 114, 101, 101, 110]"
  "units ''--color'' = [45, 45, 99, 111, 108, 111, 114]"
  "units '' 1px '' = [32, 49, 112, 120, 32]"
  by (simp_all add: units_def)

lemma trim_examples:
  "trim [32, 98, 108, 117, 101, 32] = [98, 108, 117, 101]"
  "trim [98, 108, 117, 101] = [98, 108, 117, 101]"
  "trim [0xA0, 0x2028, 0x2003] = []"
  "trim [] = []"
  by (simp_all add: trim_def is_space_def)

theorem read_keeps_nonempty_witness:
  "css_variable (updateCssVar root_color (Some [0xA0, 0x2028, 0x2003])
      \<lparr>css_variable = Str (units ''green''), css_calls = []\<rparr>) = Str (units ''green'')
   \<and> css_variable (updateCssVar root_color (Some [0xA0, 0x2028, 0x2003])
      \<lparr>css_variable = Null, css_calls = []\<rparr>) = Str (units ''red'')
   \<and> css_variable (foldl (css_read root_color) (useCssVar root_color (Some []))
      [Some (units '' blue ''), Some [], None]) = Str (units ''blue'')"
  using
    read_keeps_nonempty [OF root_color_can_read, of "Some [0xA0, 0x2028, 0x2003]"
      "\<lparr>css_variable = Str (units ''green''), css_calls = []\<rparr>" "Some []"
      "[Some (units '' blue ''), Some [], None]"]
    read_keeps_nonempty [OF root_color_can_read, of "Some [0xA0, 0x2028, 0x2003]"
      "\<lparr>css_variable = Null, css_calls = []\<rparr>" "Some []"
      "[Some (units '' blue ''), Some [], None]"]
  by (simp add: trimmed_def trim_examples units_examples root_color_def)

text \<open>
  C9 as stated fails.  With the empty string as \<open>initialValue\<close>: after the caller
  set the cell to null, a read of an empty computed value overwrites the null with the
  empty string.  And with \<^verbatim>\<open>red\<close> as \<open>initialValue\<close>: after the caller set the
  cell to the empty string, a read of an empty computed value does not keep that previous
  value but replaces it by \<^verbatim>\<open>red\<close>.
\<close>

theorem read_empties_counterexample:
  "can_read root_color_empty
   \<and> css_variable (css_set root_color_empty Null
        (useCssVar root_color_empty (Some (units ''blue'')))) = Null
   \<and> css_variable (css_read root_color_empty
        (css_set root_color_empty Null (useCssVar root_color_empty (Some (units ''blue''))))
        (Some [])) = Str []
   \<and> css_variable (css_set root_color (Str [])
        (useCssVar root_color (Some (units ''blue'')))) = Str []
   \<and> css_variable (css_read root_color
        (css_set root_color (Str []) (useCssVar root_color (Some (units ''blue''))))
        (Some [])) = Str (units ''red'')"
  by (simp add: root_color_empty_can_read root_color_can_read css_set_variable
      css_read_variable updateCssVar_variable trimmed_def trim_examples)
     (simp add: root_color_empty_def root_color_def)

text \<open>
  C8.  On a target element that has a style object, with a property name that is not
  empty: an assignment to the returned cell that changes it to null or undefined calls
  \<^verbatim>\<open>removeProperty\<close> for the property on the target, one that changes it to a string
  calls \<^verbatim>\<open>setProperty\<close> with the property and exactly that string, and the cell holds
  the assigned value.
\<close>

theorem set_writes_property:
  assumes "css_el opts = Some el" and "el_style el"
    and "css_prop opts = Str p" and "p \<noteq> []"
    and "v \<noteq> css_variable s"
  shows "(nullish v \<longrightarrow>
            css_calls (css_set opts v s) = css_calls s @ [RemoveProperty (el_id el) p])
       \<and> (\<forall>val. v = Str val \<longrightarrow>
            css_calls (css_set opts v s) = css_calls s @ [SetProperty (el_id el) p val])
       \<and> css_variable (css_set opts v s) = v"
  using assms by (cases v) (simp_all add: css_set_def write_variable_def)

theorem set_writes_property_witness:
  "css_calls (css_set root_color Null (useCssVar root_color (Some (units ''blue''))))
     = [SetProperty 0 (units ''--color'') (units ''blue''),
        RemoveProperty 0 (units ''--color'')]
   \<and> css_calls (css_set root_color (Str (units '' 1px ''))
        (useCssVar root_color (Some (units ''blue''))))
     = [SetProperty 0 (units ''--color'') (units ''blue''),
        SetProperty 0 (units ''--color'') (units '' 1px '')]"
proof -
  have el: "css_el root_color = Some \<lparr>el_id = 0, el_style = True\<rparr>"
    and style: "el_style \<lparr>el_id = 0, el_style = True\<rparr>"
    and pname: "css_prop root_color = Str (units ''--color'')"
    and ne: "units ''--color'' \<noteq> []"
    by (simp_all add: root_color_def units_def)
  have start: "useCssVar root_color (Some (units ''blue'')) =
      \<lparr>css_variable = Str (units ''blue''),
       css_calls = [SetProperty 0 (units ''--color'') (units ''blue'')]\<rparr>"
    by (simp add: useCssVar_def updateCssVar_def root_color_can_read js_or_def trimmed_def
        trim_examples units_examples write_variable_def)
       (simp add: root_color_def units_examples)
  have a: "Null \<noteq> css_variable (useCssVar root_color (Some (units ''blue'')))"
    by (simp add: start)
  have b: "Str (units '' 1px '') \<noteq> css_variable (useCssVar root_color (Some (units ''blue'')))"
    by (simp add: start) (simp add: units_examples)
  from set_writes_property [OF el style pname ne a]
    set_writes_property [OF el style pname ne b]
  show ?thesis by (simp add: start)
qed

end
